theory Spec2Isabelle
  imports Complex_Main "HOL-Library.Word"
begin

unbundle bit_operations_syntax

section \<open>Ultrasonic echo timer: data model\<close>

text \<open>
  The repository holds three programs for the same HC-SR04 sensor on a Raspberry Pi Pico.
  Two of them (the unnamed files) are one state machine, once with global variables and
  once with the same variables collected in \<^verbatim>\<open>system_state_t g_state\<close>; the model
  below follows the struct version field by field, and the version with globals is the same
  record read as the set of its globals.  The third program (\<^verbatim>\<open>main/main.c\<close>) uses flags
  instead of a state enum; its two interrupt callbacks and the blocks that start and
  report a measurement are modelled at the end of the definitions.
\<close>

subsection \<open>Constants of the source\<close>

definition TRIGGER_PIN :: nat where
  "TRIGGER_PIN = 28"

definition ECHO_PIN :: "32 word" where
  "ECHO_PIN = 27"

definition MEASUREMENT_TIMEOUT_US :: nat where
  "MEASUREMENT_TIMEOUT_US = 30000"

definition CMD_BUFFER_SIZE :: int where
  "CMD_BUFFER_SIZE = 64"

definition GPIO_IRQ_EDGE_RISE :: "32 word" where
  "GPIO_IRQ_EDGE_RISE = 0x8"

definition GPIO_IRQ_EDGE_FALL :: "32 word" where
  "GPIO_IRQ_EDGE_FALL = 0x4"

subsection \<open>State\<close>

datatype measurement_state_t =
    STATE_IDLE
  | STATE_WAITING_FOR_ECHO
  | STATE_MEASUREMENT_COMPLETE
  | STATE_MEASUREMENT_ERROR

text \<open>\<^verbatim>\<open>absolute_time_t\<close> is the SDK's 64-bit count of microseconds since boot,
  \<^verbatim>\<open>alarm_id_t\<close> its 32-bit alarm handle.\<close>

type_synonym absolute_time_t = "64 word"
type_synonym alarm_id_t = "32 word"

record system_state_t =
  current_state :: measurement_state_t
  echo_start_time :: absolute_time_t
  echo_end_time :: absolute_time_t
  measurement_alarm_id :: alarm_id_t
  system_running :: bool
  cmd_buffer :: "char list"
  cmd_index :: int

text \<open>The real-time clock's \<^verbatim>\<open>datetime_t\<close>; the fields \<^verbatim>\<open>min\<close> and \<^verbatim>\<open>sec\<close> carry a
  suffix here.\<close>

record datetime_t =
  year :: "16 word"
  month :: "8 word"
  day :: "8 word"
  dotw :: "8 word"
  hour :: "8 word"
  min_t :: "8 word"
  sec_t :: "8 word"

text \<open>What the program does to the hardware and the console, in the order it does it.
  A \<open>message\<close> is one \<^verbatim>\<open>printf\<close> call of the state machine's \<^verbatim>\<open>main\<close> (the
  accented letters of the source written as the octal escapes of their UTF-8 bytes):
  \<^item> \<open>Msg_started\<close>: \<^verbatim>\<open>printf("\nMedi\303\247\303\265es iniciadas.\n")\<close>
  \<^item> \<open>Msg_stopped\<close>: \<^verbatim>\<open>printf("\nMedi\303\247\303\265es paradas.\n")\<close>
  \<^item> \<open>Msg_unknown cmd\<close>: \<^verbatim>\<open>printf("\nComando desconhecido: %s\n", cmd_buffer)\<close>
  \<^item> \<open>Msg_distance time_str distance\<close>: \<^verbatim>\<open>printf("\n%s - %.0f cm\n", time_str, distance)\<close>
  \<^item> \<open>Msg_failure time_str\<close>: \<^verbatim>\<open>printf("\n%s - Falha\n", time_str)\<close>
\<close>

datatype message =
    Msg_started
  | Msg_stopped
  | Msg_unknown string
  | Msg_distance string rat
  | Msg_failure string

datatype action =
    Gpio_put nat bool
  | Sleep_us nat
  | Sleep_ms nat
  | Add_alarm_in_us nat bool
  | Add_alarm_in_ms nat bool
  | Cancel_alarm alarm_id_t
  | Putchar char
  | Printf message

datatype error = Out_of_bounds | Float_range

section \<open>Interrupt callbacks\<close>

text \<open>\<^verbatim>\<open>timeout_callback\<close>: the alarm's callback. The returned 0 tells the SDK not to
  reschedule the alarm.\<close>

definition timeout_callback :: "alarm_id_t \<Rightarrow> system_state_t \<Rightarrow> int \<times> system_state_t" where
  "timeout_callback alarm s =
     (0, if current_state s = STATE_WAITING_FOR_ECHO
         then s\<lparr>current_state := STATE_MEASUREMENT_ERROR\<rparr>
         else s)"

text \<open>\<^verbatim>\<open>echo_callback\<close>: the GPIO interrupt handler. \<open>t_rise\<close> and \<open>t_fall\<close> are the
  values \<^verbatim>\<open>get_absolute_time()\<close> returns at its first and second call site.\<close>

definition echo_callback ::
  "32 word \<Rightarrow> 32 word \<Rightarrow> absolute_time_t \<Rightarrow> absolute_time_t \<Rightarrow> system_state_t
     \<Rightarrow> system_state_t \<times> action list" where
  "echo_callback gpio events t_rise t_fall s =
     (if gpio = ECHO_PIN then
        let s1 = (if events AND GPIO_IRQ_EDGE_RISE \<noteq> 0
                  then s\<lparr>echo_start_time := t_rise\<rparr> else s)
        in if events AND GPIO_IRQ_EDGE_FALL \<noteq> 0 then
             let s2 = s1\<lparr>echo_end_time := t_fall\<rparr>
             in if current_state s2 = STATE_WAITING_FOR_ECHO
                then (s2\<lparr>current_state := STATE_MEASUREMENT_COMPLETE\<rparr>,
                      [Cancel_alarm (measurement_alarm_id s2)])
                else (s2, [])
           else (s1, [])
      else (s, []))"

text \<open>The interrupts of the program, and a serialized run of them: both callbacks run in
  interrupt context to completion, one after the other.\<close>

datatype irq =
    Echo_irq "32 word" "32 word" absolute_time_t absolute_time_t
  | Alarm_irq alarm_id_t

fun irq_step :: "irq \<Rightarrow> system_state_t \<Rightarrow> system_state_t" where
  "irq_step (Echo_irq gpio events t_rise t_fall) s = fst (echo_callback gpio events t_rise t_fall s)"
| "irq_step (Alarm_irq alarm) s = snd (timeout_callback alarm s)"

fun irq_run :: "irq list \<Rightarrow> system_state_t \<Rightarrow> system_state_t list" where
  "irq_run [] s = [s]"
| "irq_run (e # es) s = s # irq_run es (irq_step e s)"

text \<open>How many times a run of states leaves \<^verbatim>\<open>STATE_WAITING_FOR_ECHO\<close>.\<close>

fun leaves_waiting :: "system_state_t list \<Rightarrow> nat" where
  "leaves_waiting (s # s' # rest) =
     (if current_state s = STATE_WAITING_FOR_ECHO \<and> current_state s' \<noteq> STATE_WAITING_FOR_ECHO
      then 1 else 0) + leaves_waiting (s' # rest)"
| "leaves_waiting _ = 0"

definition is_falling_edge :: "irq \<Rightarrow> bool" where
  "is_falling_edge e =
     (case e of Echo_irq gpio events _ _ \<Rightarrow> gpio = ECHO_PIN \<and> events AND GPIO_IRQ_EDGE_FALL \<noteq> 0
      | Alarm_irq _ \<Rightarrow> False)"

definition is_timeout :: "irq \<Rightarrow> bool" where
  "is_timeout e = (case e of Alarm_irq _ \<Rightarrow> True | _ \<Rightarrow> False)"

section \<open>Single-precision arithmetic\<close>

text \<open>
  \<^verbatim>\<open>float distance = (duration_us * 0.0343f) / 2.0f;\<close> is evaluated in IEEE-754 binary32.
  A finite \<^verbatim>\<open>float\<close> is modelled by the rational it denotes; every operation computes the
  exact result and rounds it to the nearest value with a 24-bit significand, ties to the
  even significand. \<open>None\<close> stands for a result outside the normal range (overflow to
  infinity, or a magnitude below \<open>2 powi (- 126)\<close>), which the computation above never
  reaches (\<open>distance_cm_total\<close> below).
\<close>

text \<open>The number of binary digits of a positive integer.\<close>

function bit_length :: "int \<Rightarrow> nat" where
  "bit_length n = (if n \<le> 0 then 0 else Suc (bit_length (n div 2)))"
  by pat_completeness auto
termination
  by (relation "measure nat") auto

declare bit_length.simps [simp del]

text \<open>The binary exponent of a positive rational: \<open>2 powi flog2 x \<le> x < 2 powi (flog2 x + 1)\<close>.\<close>

definition flog2 :: "rat \<Rightarrow> int" where
  "flog2 x = (if 1 \<le> x then int (bit_length \<lfloor>x\<rfloor>) - 1
              else - int (bit_length (\<lceil>1 / x\<rceil> - 1)))"

definition round_half_even :: "rat \<Rightarrow> int" where
  "round_half_even y =
     (let f = \<lfloor>y\<rfloor>; r = y - of_int f
      in if r < 1 / 2 then f else if 1 / 2 < r then f + 1 else if even f then f else f + 1)"

definition f32_nearest :: "rat \<Rightarrow> rat" where
  "f32_nearest x =
     (let q = flog2 \<bar>x\<bar> - 23;
          m = round_half_even (\<bar>x\<bar> / 2 powi q)
      in sgn x * of_int m * 2 powi q)"

definition f32_round :: "rat \<Rightarrow> rat option" where
  "f32_round x =
     (if x = 0 then Some 0
      else if flog2 \<bar>x\<bar> < - 126 \<or> 2 powi 128 \<le> \<bar>f32_nearest x\<bar> then None
      else Some (f32_nearest x))"

definition f32_mul :: "rat \<Rightarrow> rat \<Rightarrow> rat option" where
  "f32_mul a b = f32_round (a * b)"

definition f32_div :: "rat \<Rightarrow> rat \<Rightarrow> rat option" where
  "f32_div a b = (if b = 0 then None else f32_round (a / b))"

text \<open>The SDK's \<^verbatim>\<open>absolute_time_diff_us(from, to)\<close>: the difference of the two 64-bit
  counters, read as \<^verbatim>\<open>int64_t\<close>.\<close>

definition absolute_time_diff_us :: "absolute_time_t \<Rightarrow> absolute_time_t \<Rightarrow> int" where
  "absolute_time_diff_us t_from t_to = sint (t_to - t_from)"

text \<open>\<^verbatim>\<open>(duration_us * 0.0343f) / 2.0f\<close>: the \<^verbatim>\<open>int64_t\<close> is converted to \<^verbatim>\<open>float\<close>,
  multiplied by the literal, and the product divided by the literal 2.\<close>

definition distance_cm :: "int \<Rightarrow> rat option" where
  "distance_cm duration_us =
     Option.bind (f32_round (of_int duration_us)) (\<lambda>d.
     Option.bind (f32_round (343 / 10000)) (\<lambda>c.
     Option.bind (f32_mul d c) (\<lambda>p.
     Option.bind (f32_round 2) (\<lambda>two. f32_div p two))))"

section \<open>The foreground loop\<close>

subsection \<open>Formatting the time of day\<close>

definition digit_char :: "nat \<Rightarrow> char" where
  "digit_char d = ''0123456789'' ! d"

fun dec_digits :: "nat \<Rightarrow> string" where
  "dec_digits n =
     (if n < 10 then [digit_char n] else dec_digits (n div 10) @ [digit_char (n mod 10)])"

declare dec_digits.simps [simp del]

text \<open>\<^verbatim>\<open>%02d\<close>: at least two characters, padded with zeros on the left.\<close>

definition fmt_02d :: "int \<Rightarrow> string" where
  "fmt_02d i =
     (if i < 0 then CHR ''-'' # dec_digits (nat (- i))
      else if i < 10 then CHR ''0'' # dec_digits (nat i)
      else dec_digits (nat i))"

text \<open>\<^verbatim>\<open>sprintf(time_str, "%02d:%02d:%02d", hour, min, sec)\<close> into \<^verbatim>\<open>char time_str[16]\<close>:
  the text and its terminator must fit the 16 bytes.\<close>

definition sprintf_time :: "datetime_t \<Rightarrow> error + string" where
  "sprintf_time now =
     (let str = fmt_02d (sint (hour now)) @ '':'' @ fmt_02d (sint (min_t now)) @ '':''
                @ fmt_02d (sint (sec_t now))
      in if length str < 16 then Inr str else Inl Out_of_bounds)"

subsection \<open>The command buffer\<close>

definition buf_write :: "char list \<Rightarrow> int \<Rightarrow> char \<Rightarrow> error + char list" where
  "buf_write buf i c =
     (if 0 \<le> i \<and> i < int (length buf) then Inr (buf[nat i := c]) else Inl Out_of_bounds)"

text \<open>The C string a buffer holds: its bytes up to the first NUL. \<^verbatim>\<open>strcmp(buf, lit) == 0\<close>
  compares this with the literal.\<close>

definition c_str :: "char list \<Rightarrow> string" where
  "c_str buf = takeWhile (\<lambda>c. c \<noteq> CHR 0x00) buf"

text \<open>The body of \<^verbatim>\<open>if (c != PICO_ERROR_TIMEOUT) { ... }\<close> for a received character. The
  first component of the result tells whether the body ended in \<^verbatim>\<open>continue\<close>.\<close>

definition handle_char :: "char \<Rightarrow> system_state_t \<Rightarrow> error + (bool \<times> system_state_t \<times> action list)" where
  "handle_char c s =
     (if c = CHR 0x0D \<or> c = CHR 0x0A then
        if cmd_index s = 0 then Inr (True, s, [Putchar c])
        else
          case buf_write (cmd_buffer s) (cmd_index s) (CHR 0x00) of
            Inl e \<Rightarrow> Inl e
          | Inr buf \<Rightarrow>
              let cmd = c_str buf;
                  running = (if cmd = ''start'' then True
                             else if cmd = ''stop'' then False
                             else system_running s);
                  msg = (if cmd = ''start'' then Msg_started
                         else if cmd = ''stop'' then Msg_stopped
                         else Msg_unknown cmd)
              in Inr (False,
                      s\<lparr>system_running := running, cmd_index := 0,
                        cmd_buffer := replicate (nat CMD_BUFFER_SIZE) (CHR 0x00)\<rparr>,
                      [Putchar c, Printf msg])
      else if cmd_index s < CMD_BUFFER_SIZE - 1 then
        case buf_write (cmd_buffer s) (cmd_index s) c of
          Inl e \<Rightarrow> Inl e
        | Inr buf \<Rightarrow>
            Inr (False, s\<lparr>cmd_buffer := buf, cmd_index := cmd_index s + 1\<rparr>, [Putchar c])
      else Inr (False, s, [Putchar c]))"

subsection \<open>Starting a measurement\<close>

definition send_trigger_pulse :: "action list" where
  "send_trigger_pulse = [Gpio_put TRIGGER_PIN True, Sleep_us 10, Gpio_put TRIGGER_PIN False]"

text \<open>\<^verbatim>\<open>if (system_running && current_state == STATE_IDLE) { ... }\<close>; \<open>new_alarm\<close> is the
  handle \<^verbatim>\<open>add_alarm_in_us\<close> returns.\<close>

definition main_trigger :: "alarm_id_t \<Rightarrow> system_state_t \<Rightarrow> system_state_t \<times> action list" where
  "main_trigger new_alarm s =
     (if system_running s \<and> current_state s = STATE_IDLE
      then (s\<lparr>current_state := STATE_WAITING_FOR_ECHO, measurement_alarm_id := new_alarm\<rparr>,
            send_trigger_pulse @ [Add_alarm_in_us MEASUREMENT_TIMEOUT_US True])
      else (s, []))"

subsection \<open>Reporting a result\<close>

text \<open>\<^verbatim>\<open>if (current_state == STATE_MEASUREMENT_COMPLETE || current_state == STATE_MEASUREMENT_ERROR) { ... }\<close>;
  \<open>now\<close> is what \<^verbatim>\<open>rtc_get_datetime\<close> stores.\<close>

definition main_report :: "datetime_t \<Rightarrow> system_state_t \<Rightarrow> error + (system_state_t \<times> action list)" where
  "main_report now s =
     (if current_state s = STATE_MEASUREMENT_COMPLETE \<or> current_state s = STATE_MEASUREMENT_ERROR then
        case sprintf_time now of
          Inl e \<Rightarrow> Inl e
        | Inr time_str \<Rightarrow>
            let pause = (if system_running s then [Sleep_ms 1000] else [])
            in if current_state s = STATE_MEASUREMENT_COMPLETE then
                 case distance_cm (absolute_time_diff_us (echo_start_time s) (echo_end_time s)) of
                   None \<Rightarrow> Inl Float_range
                 | Some distance \<Rightarrow>
                     Inr (s\<lparr>current_state := STATE_IDLE\<rparr>,
                          Printf (Msg_distance time_str distance) # pause)
               else Inr (s\<lparr>current_state := STATE_IDLE\<rparr>, Printf (Msg_failure time_str) # pause)
      else Inr (s, []))"

subsection \<open>One iteration of \<^verbatim>\<open>while (true)\<close>\<close>

text \<open>What one iteration reads from its environment: the result of
  \<^verbatim>\<open>getchar_timeout_us(1000)\<close> (\<open>None\<close> is \<^verbatim>\<open>PICO_ERROR_TIMEOUT\<close>), the handle
  \<^verbatim>\<open>add_alarm_in_us\<close> returns if it is called, and the time \<^verbatim>\<open>rtc_get_datetime\<close> gives if it
  is called.\<close>

record iter_in =
  getchar_result :: "char option"
  alarm_result :: alarm_id_t
  rtc_now :: datetime_t

definition main_console :: "iter_in \<Rightarrow> system_state_t \<Rightarrow> error + (bool \<times> system_state_t \<times> action list)" where
  "main_console inp s =
     (case getchar_result inp of
        None \<Rightarrow> Inr (False, s, [])
      | Some c \<Rightarrow> handle_char c s)"

definition main_iter :: "iter_in \<Rightarrow> system_state_t \<Rightarrow> error + (system_state_t \<times> action list)" where
  "main_iter inp s =
     (case main_console inp s of
        Inl e \<Rightarrow> Inl e
      | Inr (continue, s1, a1) \<Rightarrow>
          if continue then Inr (s1, a1)
          else
            let (s2, a2) = main_trigger (alarm_result inp) s1
            in case main_report (rtc_now inp) s2 of
                 Inl e \<Rightarrow> Inl e
               | Inr (s3, a3) \<Rightarrow> Inr (s3, a1 @ a2 @ a3 @ [Sleep_ms 10]))"

text \<open>The initial value of \<^verbatim>\<open>g_state\<close>: the named initializers, every other member zero.\<close>

definition g_state_init :: system_state_t where
  "g_state_init =
     \<lparr>current_state = STATE_IDLE, echo_start_time = 0, echo_end_time = 0,
      measurement_alarm_id = 0, system_running = False,
      cmd_buffer = replicate (nat CMD_BUFFER_SIZE) (CHR 0x00), cmd_index = 0\<rparr>"

text \<open>The program as a whole: foreground iterations and interrupts, one after the other.
  An iteration is one step, run without preemption. In the program an interrupt may also
  arrive between two statements of an iteration; it can only take the state from
  \<^verbatim>\<open>STATE_WAITING_FOR_ECHO\<close> to a terminal state (only the foreground loop writes
  \<^verbatim>\<open>STATE_IDLE\<close> and \<^verbatim>\<open>STATE_WAITING_FOR_ECHO\<close>), and the iteration then reports in the
  same pass what the model reports in the next one.\<close>

datatype event = Iter iter_in | Irq irq

fun step :: "event \<Rightarrow> system_state_t \<Rightarrow> error + (system_state_t \<times> action list)" where
  "step (Iter inp) s = main_iter inp s"
| "step (Irq (Echo_irq gpio events t_rise t_fall)) s = Inr (echo_callback gpio events t_rise t_fall s)"
| "step (Irq (Alarm_irq alarm)) s = Inr (snd (timeout_callback alarm s), [])"

fun run :: "event list \<Rightarrow> system_state_t \<Rightarrow> error + (system_state_t \<times> action list)" where
  "run [] s = Inr (s, [])"
| "run (e # es) s =
     (case step e s of
        Inl err \<Rightarrow> Inl err
      | Inr (s1, a1) \<Rightarrow>
          (case run es s1 of Inl err \<Rightarrow> Inl err | Inr (s2, a2) \<Rightarrow> Inr (s2, a1 @ a2)))"

text \<open>What one event does to the pair of start and end timestamp: an edge on the echo pin
  stores its time, nothing else touches them.\<close>

fun stamp :: "event \<Rightarrow> absolute_time_t \<times> absolute_time_t \<Rightarrow> absolute_time_t \<times> absolute_time_t" where
  "stamp (Irq (Echo_irq gpio events t_rise t_fall)) (t_start, t_end) =
     (if gpio = ECHO_PIN
      then (if events AND GPIO_IRQ_EDGE_RISE \<noteq> 0 then t_rise else t_start,
            if events AND GPIO_IRQ_EDGE_FALL \<noteq> 0 then t_fall else t_end)
      else (t_start, t_end))"
| "stamp _ ts = ts"

text \<open>The times of the rising and of the falling edges of the echo pin among the events of
  a run, in the order of arrival.\<close>

fun rise_time :: "event \<Rightarrow> absolute_time_t option" where
  "rise_time (Irq (Echo_irq gpio events t_rise t_fall)) =
     (if gpio = ECHO_PIN \<and> events AND GPIO_IRQ_EDGE_RISE \<noteq> 0 then Some t_rise else None)"
| "rise_time _ = None"

fun fall_time :: "event \<Rightarrow> absolute_time_t option" where
  "fall_time (Irq (Echo_irq gpio events t_rise t_fall)) =
     (if gpio = ECHO_PIN \<and> events AND GPIO_IRQ_EDGE_FALL \<noteq> 0 then Some t_fall else None)"
| "fall_time _ = None"

definition rises :: "event list \<Rightarrow> absolute_time_t list" where
  "rises es = List.map_filter rise_time es"

definition falls :: "event list \<Rightarrow> absolute_time_t list" where
  "falls es = List.map_filter fall_time es"

text \<open>The report lines among the actions, and the actions that send a pulse or arm an
  alarm.\<close>

definition is_report :: "message \<Rightarrow> bool" where
  "is_report m = (case m of Msg_distance _ _ \<Rightarrow> True | Msg_failure _ \<Rightarrow> True | _ \<Rightarrow> False)"

fun reports :: "action list \<Rightarrow> message list" where
  "reports [] = []"
| "reports (Printf m # acts) = (if is_report m then m # reports acts else reports acts)"
| "reports (_ # acts) = reports acts"

definition is_trigger_or_alarm :: "action \<Rightarrow> bool" where
  "is_trigger_or_alarm a =
     (case a of Gpio_put _ _ \<Rightarrow> True | Add_alarm_in_us _ _ \<Rightarrow> True | Add_alarm_in_ms _ _ \<Rightarrow> True
      | _ \<Rightarrow> False)"

text \<open>The state the command buffer is in between iterations.\<close>

definition buffer_ok :: "system_state_t \<Rightarrow> bool" where
  "buffer_ok s \<longleftrightarrow>
     length (cmd_buffer s) = nat CMD_BUFFER_SIZE \<and> 0 \<le> cmd_index s \<and> cmd_index s \<le> CMD_BUFFER_SIZE - 1"

text \<open>The text a report prints. \<open>fmt\<close> is the C library's conversion \<^verbatim>\<open>%.0f\<close>, which the
  repository does not contain.\<close>

definition render_report :: "(rat \<Rightarrow> string) \<Rightarrow> message \<Rightarrow> string" where
  "render_report fmt m =
     (case m of
        Msg_distance time_str distance \<Rightarrow>
          [CHR 0x0A] @ time_str @ '' - '' @ fmt distance @ '' cm'' @ [CHR 0x0A]
      | Msg_failure time_str \<Rightarrow> [CHR 0x0A] @ time_str @ '' - Falha'' @ [CHR 0x0A]
      | _ \<Rightarrow> [])"

definition is_digit :: "char \<Rightarrow> bool" where
  "is_digit c \<longleftrightarrow> c \<in> set ''0123456789''"

text \<open>The shape \<^verbatim>\<open>HH:MM:SS\<close>.\<close>

definition is_hh_mm_ss :: "string \<Rightarrow> bool" where
  "is_hh_mm_ss str \<longleftrightarrow>
     (case str of
        [h1, h2, c1, m1, m2, c2, s1, s2] \<Rightarrow>
          is_digit h1 \<and> is_digit h2 \<and> c1 = CHR '':'' \<and> is_digit m1 \<and> is_digit m2
          \<and> c2 = CHR '':'' \<and> is_digit s1 \<and> is_digit s2
      | _ \<Rightarrow> False)"

text \<open>A time of day as the real-time clock delivers it.\<close>

definition valid_time :: "datetime_t \<Rightarrow> bool" where
  "valid_time now \<longleftrightarrow>
     0 \<le> sint (hour now) \<and> sint (hour now) < 24 \<and> 0 \<le> sint (min_t now) \<and> sint (min_t now) < 60
     \<and> 0 \<le> sint (sec_t now) \<and> sint (sec_t now) < 60"

section \<open>The program in \<^verbatim>\<open>main/main.c\<close>\<close>

text \<open>The third program keeps flags instead of a state enum and waits for the echo inside
  the iteration that sent the pulse. Its callbacks and the two straight-line blocks around
  its wait loop are modelled here.\<close>

definition main_TRIG_PIN :: nat where
  "main_TRIG_PIN = 15"

definition main_ECHO_PIN :: "32 word" where
  "main_ECHO_PIN = 14"

record sensor_state_t =
  alarm_id :: alarm_id_t
  flag_f_trigger :: "32 word"
  timer_fired :: bool
  action_completed :: bool
  t_descida :: absolute_time_t
  t_subida :: absolute_time_t

text \<open>The initializer of \<^verbatim>\<open>sensor_state\<close>, lines 30 to 34; the two timestamps it does not
  name are zero, as for every object of static storage.\<close>

definition sensor_state_init :: sensor_state_t where
  "sensor_state_init =
     \<lparr>alarm_id = 0, flag_f_trigger = 0, timer_fired = False, action_completed = False,
      t_descida = 0, t_subida = 0\<rparr>"

definition alarm_callback :: "alarm_id_t \<Rightarrow> sensor_state_t \<Rightarrow> int \<times> sensor_state_t" where
  "alarm_callback alarm st = (0, st\<lparr>timer_fired := True\<rparr>)"

definition trigger_callback ::
  "32 word \<Rightarrow> 32 word \<Rightarrow> absolute_time_t \<Rightarrow> absolute_time_t \<Rightarrow> sensor_state_t
     \<Rightarrow> sensor_state_t \<times> action list" where
  "trigger_callback gpio events t_rise t_fall st =
     (let st1 = (if gpio = main_ECHO_PIN \<and> events = 0x8 then st\<lparr>t_subida := t_rise\<rparr> else st)
      in if gpio = main_ECHO_PIN \<and> events = 0x4 \<and> flag_f_trigger st1 \<noteq> 0 then
           let st2 = st1\<lparr>t_descida := t_fall, flag_f_trigger := 0\<rparr>;
               cancel = (if \<not> timer_fired st2 \<and> alarm_id st2 \<noteq> 0
                         then [Cancel_alarm (alarm_id st2)] else [])
           in (st2\<lparr>timer_fired := False, action_completed := True\<rparr>, cancel)
         else (st1, []))"

text \<open>Lines 136 to 143 of \<^verbatim>\<open>main\<close>: the flags are reset, the pulse is sent and the alarm
  armed; \<open>new_alarm\<close> is the handle \<^verbatim>\<open>add_alarm_in_ms\<close> returns.\<close>

definition begin_measurement :: "alarm_id_t \<Rightarrow> sensor_state_t \<Rightarrow> sensor_state_t \<times> action list" where
  "begin_measurement new_alarm st =
     (st\<lparr>flag_f_trigger := 1, timer_fired := False, action_completed := False,
        alarm_id := new_alarm\<rparr>,
      [Gpio_put main_TRIG_PIN True, Sleep_us 10, Gpio_put main_TRIG_PIN False,
       Add_alarm_in_ms 500 False])"

text \<open>The condition in front of that block, line 134: \<open>active\<close> is the run flag
  \<^verbatim>\<open>reading_active\<close>, \<open>elapsed_us\<close> the time since the last measurement, compared with
  \<^verbatim>\<open>measurement_interval_ms * 1000\<close>.\<close>

definition measurement_due :: "bool \<Rightarrow> int \<Rightarrow> bool" where
  "measurement_due active elapsed_us \<longleftrightarrow> active \<and> 1000 * 1000 \<le> elapsed_us"

definition try_begin_measurement ::
  "bool \<Rightarrow> int \<Rightarrow> alarm_id_t \<Rightarrow> sensor_state_t \<Rightarrow> sensor_state_t \<times> action list" where
  "try_begin_measurement active elapsed_us new_alarm st =
     (if measurement_due active elapsed_us then begin_measurement new_alarm st
      else (st, []))"

text \<open>Lines 155 to 168 of \<^verbatim>\<open>main\<close>, after the wait loop: \<^verbatim>\<open>printf("%.2f cm\n", distance)\<close>,
  \<^verbatim>\<open>printf("Falha\n")\<close> or the line for a measurement that did not finish.\<close>

datatype outcome = Out_distance rat | Out_falha | Out_incomplete

definition report_measurement :: "sensor_state_t \<Rightarrow> error + outcome" where
  "report_measurement st =
     (if action_completed st then
        case distance_cm (absolute_time_diff_us (t_subida st) (t_descida st)) of
          None \<Rightarrow> Inl Float_range
        | Some distance \<Rightarrow> Inr (Out_distance distance)
      else if timer_fired st then Inr Out_falha
      else Inr Out_incomplete)"

text \<open>\<^verbatim>\<open>print_datetime\<close>, lines 63 to 68: what it prints in front of the report, for the
  time of day \<open>now\<close> the clock delivers.\<close>

definition print_datetime :: "datetime_t \<Rightarrow> string" where
  "print_datetime now =
     fmt_02d (sint (hour now)) @ '':'' @ fmt_02d (sint (min_t now)) @ '':''
     @ fmt_02d (sint (sec_t now)) @ '' - ''"

text \<open>The command line of \<^verbatim>\<open>main/main.c\<close>, lines 99 to 132: the local variables
  \<^verbatim>\<open>reading_active\<close>, \<^verbatim>\<open>command[20]\<close> and \<^verbatim>\<open>cmd_index\<close>, and the three lines it prints.\<close>

datatype command_reply = Leitura_iniciada | Leitura_parada | Comando_desconhecido

record command_line_t =
  reading_active :: bool
  command :: "char list"
  command_index :: int

definition command_char :: "char \<Rightarrow> command_line_t \<Rightarrow> error + (command_line_t \<times> command_reply list)" where
  "command_char ch cl =
     (if ch = CHR 0x0A \<or> ch = CHR 0x0D then
        if 0 < command_index cl then
          case buf_write (command cl) (command_index cl) (CHR 0x00) of
            Inl e \<Rightarrow> Inl e
          | Inr buf \<Rightarrow>
              let cmd = c_str buf;
                  active = (if cmd = ''start'' then True
                            else if cmd = ''stop'' then False
                            else reading_active cl);
                  reply = (if cmd = ''start'' then Leitura_iniciada
                           else if cmd = ''stop'' then Leitura_parada
                           else Comando_desconhecido)
              in Inr (cl\<lparr>reading_active := active, command_index := 0,
                         command := replicate 20 (CHR 0x00)\<rparr>, [reply])
        else Inr (cl, [])
      else if command_index cl < 20 - 1 then
        case buf_write (command cl) (command_index cl) ch of
          Inl e \<Rightarrow> Inl e
        | Inr buf \<Rightarrow> Inr (cl\<lparr>command := buf, command_index := command_index cl + 1\<rparr>, [])
      else Inr (cl, []))"

fun command_chars :: "char list \<Rightarrow> command_line_t \<Rightarrow> error + command_line_t" where
  "command_chars [] cl = Inr cl"
| "command_chars (ch # chs) cl =
     (case command_char ch cl of Inl e \<Rightarrow> Inl e | Inr (cl1, _) \<Rightarrow> command_chars chs cl1)"

definition command_ok :: "command_line_t \<Rightarrow> bool" where
  "command_ok cl \<longleftrightarrow> length (command cl) = 20 \<and> 0 \<le> command_index cl \<and> command_index cl \<le> 19"

section \<open>Example inputs\<close>

text \<open>The date and time \<^verbatim>\<open>main\<close> sets the real-time clock to, an iteration that receives no
  character, and one that receives the character \<open>c\<close>.\<close>

definition t_init :: datetime_t where
  "t_init = \<lparr>year = 2025, month = 3, day = 19, dotw = 3, hour = 10, min_t = 0, sec_t = 0\<rparr>"

definition no_char :: iter_in where
  "no_char = \<lparr>getchar_result = None, alarm_result = 1, rtc_now = t_init\<rparr>"

definition got_char :: "char \<Rightarrow> iter_in" where
  "got_char c = \<lparr>getchar_result = Some c, alarm_result = 1, rtc_now = t_init\<rparr>"

text \<open>A state in which a measurement is under way and the characters \<^verbatim>\<open>stop\<close> have been
  received.\<close>

definition s_stop :: system_state_t where
  "s_stop = g_state_init\<lparr>current_state := STATE_WAITING_FOR_ECHO, measurement_alarm_id := 1,
              system_running := True,
              cmd_buffer := ''stop'' @ replicate 60 (CHR 0x00), cmd_index := 4\<rparr>"

section \<open>Rounding to single precision: bounds\<close>

lemma bit_length_bounds:
  "0 < n \<Longrightarrow> 2 ^ (bit_length n - 1) \<le> n \<and> n < 2 ^ bit_length n"
proof (induction n rule: bit_length.induct)
  case (1 n)
  show ?case
  proof (cases "n div 2 \<le> 0")
    case True
    with "1.prems" have "n = 1" by presburger
    then show ?thesis by (simp add: bit_length.simps)
  next
    case False
    then have pos: "0 < n div 2" by simp
    from "1.IH" "1.prems" pos
    have ih: "2 ^ (bit_length (n div 2) - 1) \<le> n div 2" "n div 2 < 2 ^ bit_length (n div 2)"
      by simp_all
    have bl: "bit_length n = Suc (bit_length (n div 2))"
      using "1.prems" by (subst bit_length.simps) simp
    have blpos: "0 < bit_length (n div 2)"
      using pos by (subst bit_length.simps) simp
    have "(2::int) ^ (bit_length n - 1) = 2 * 2 ^ (bit_length (n div 2) - 1)"
      using bl blpos by (cases "bit_length (n div 2)") simp_all
    also have "\<dots> \<le> 2 * (n div 2)" using ih(1) by simp
    also have "\<dots> \<le> n" by presburger
    finally have lo: "2 ^ (bit_length n - 1) \<le> n" .
    have "n < 2 * (n div 2) + 2" by presburger
    also have "\<dots> \<le> 2 * 2 ^ bit_length (n div 2)" using ih(2) by simp
    finally have hi: "n < 2 ^ bit_length n" using bl by simp
    from lo hi show ?thesis ..
  qed
qed

lemma flog2_ge1:
  assumes "1 \<le> x"
  shows "2 powi flog2 x \<le> x" and "x < 2 powi (flog2 x + 1)"
proof -
  define n where "n = \<lfloor>x\<rfloor>"
  have npos: "0 < n" using assms by (simp add: n_def)
  note b = bit_length_bounds [OF npos]
  have blpos: "0 < bit_length n"
    using npos by (subst bit_length.simps) simp
  have e: "flog2 x = int (bit_length n - 1)"
    using assms blpos by (simp add: flog2_def n_def of_nat_diff)
  have "(2::rat) powi flog2 x = of_int (2 ^ (bit_length n - 1))"
    by (simp add: e)
  also have "\<dots> \<le> of_int n"
    using b by (simp only: of_int_le_iff)
  also have "\<dots> \<le> x" by (simp add: n_def)
  finally show "2 powi flog2 x \<le> x" .
  have "x < of_int (n + 1)" unfolding n_def by linarith
  also have "\<dots> \<le> of_int (2 ^ bit_length n)"
    using b by (simp only: of_int_le_iff) simp
  also have "\<dots> = 2 powi (flog2 x + 1)"
    using blpos by (simp add: e of_nat_diff)
  finally show "x < 2 powi (flog2 x + 1)" .
qed

lemma flog2_lt1:
  assumes "0 < x" "x < 1"
  shows "2 powi flog2 x \<le> x" and "x < 2 powi (flog2 x + 1)"
proof -
  define y where "y = \<lceil>1 / x\<rceil>"
  define n where "n = y - 1"
  have inv: "1 < 1 / x" using assms by simp
  have y2: "2 \<le> y" using inv unfolding y_def by linarith
  have npos: "0 < n" using y2 by (simp add: n_def)
  note b = bit_length_bounds [OF npos]
  have blpos: "0 < bit_length n"
    using npos by (subst bit_length.simps) simp
  have e: "flog2 x = - int (bit_length n)"
    using assms by (simp add: flog2_def n_def y_def)
  have "1 / x \<le> of_int y" unfolding y_def by linarith
  also have "\<dots> = of_int (n + 1)" by (simp add: n_def)
  also have "\<dots> \<le> of_int (2 ^ bit_length n)"
    using b by (simp only: of_int_le_iff) simp
  finally have up: "1 / x \<le> 2 ^ bit_length n" by simp
  have "1 / 2 ^ bit_length n \<le> x"
    using up assms(1) by (simp add: field_simps)
  then show "2 powi flog2 x \<le> x"
    by (simp add: e power_int_minus field_simps)
  have "(of_int (2 ^ (bit_length n - 1)) :: rat) \<le> of_int n"
    using b by (simp only: of_int_le_iff)
  also have "\<dots> < 1 / x" unfolding n_def y_def by linarith
  finally have lo: "2 ^ (bit_length n - 1) < 1 / x" by simp
  have "x < 1 / 2 ^ (bit_length n - 1)"
    using lo assms(1) by (simp add: field_simps)
  also have "\<dots> = 2 powi (flog2 x + 1)"
  proof -
    have "flog2 x + 1 = - int (bit_length n - 1)" using blpos by (simp add: e of_nat_diff)
    then show ?thesis by (simp add: power_int_minus field_simps)
  qed
  finally show "x < 2 powi (flog2 x + 1)" .
qed

lemma flog2_bounds:
  assumes "0 < x"
  shows "2 powi flog2 x \<le> x" and "x < 2 powi (flog2 x + 1)"
  using assms flog2_ge1 [of x] flog2_lt1 [of x] by (cases "1 \<le> x"; simp)+

lemma round_half_even_error: "\<bar>of_int (round_half_even y) - y\<bar> \<le> 1 / 2"
proof -
  have "of_int \<lfloor>y\<rfloor> \<le> y" "y < of_int \<lfloor>y\<rfloor> + 1" by linarith+
  then show ?thesis
    by (auto simp: round_half_even_def Let_def abs_le_iff)
qed

lemma f32_nearest_error:
  assumes "x \<noteq> 0"
  shows "\<bar>f32_nearest x - x\<bar> \<le> \<bar>x\<bar> / 2 ^ 24"
proof -
  define q where "q = flog2 \<bar>x\<bar> - 23"
  define m where "m = round_half_even (\<bar>x\<bar> / 2 powi q)"
  define r where "r = f32_nearest x"
  have r: "r = sgn x * of_int m * 2 powi q"
    by (simp add: r_def f32_nearest_def Let_def q_def m_def)
  have qpos: "(0::rat) < 2 powi q" by simp
  define y where "y = \<bar>x\<bar> / 2 powi q"
  have xy: "\<bar>x\<bar> = y * 2 powi q" by (simp add: y_def)
  have sx: "x = sgn x * \<bar>x\<bar>" by (simp add: sgn_mult_abs)
  have "r - x = sgn x * ((of_int m - y) * 2 powi q)"
    by (subst sx) (simp add: r xy algebra_simps)
  then have "\<bar>r - x\<bar> = \<bar>of_int m - y\<bar> * 2 powi q"
    using assms by (simp add: abs_mult abs_sgn_eq)
  also have "\<dots> \<le> 1 / 2 * 2 powi q"
    using round_half_even_error [of y] qpos
    by (intro mult_right_mono) (simp_all add: m_def y_def)
  finally have step: "\<bar>r - x\<bar> \<le> 2 powi q / 2" by simp
  have "2 powi (q + 23) \<le> \<bar>x\<bar>"
    using flog2_bounds(1) [of "\<bar>x\<bar>"] assms by (simp add: q_def)
  then have "2 powi q * 2 ^ 23 \<le> \<bar>x\<bar>"
    by (simp add: power_int_add)
  then have "2 powi q / 2 \<le> \<bar>x\<bar> / 2 ^ 24" by simp
  with step show ?thesis unfolding r_def by linarith
qed

lemma f32_round_normal:
  assumes "2 powi (- 126) \<le> \<bar>x\<bar>" "\<bar>x\<bar> \<le> 2 powi 127"
  shows "\<exists>r. f32_round x = Some r \<and> \<bar>r - x\<bar> \<le> \<bar>x\<bar> / 2 ^ 24"
proof -
  have x0: "x \<noteq> 0" using assms(1) by auto
  have e: "\<not> flog2 \<bar>x\<bar> < - 126"
  proof
    assume "flog2 \<bar>x\<bar> < - 126"
    then have "flog2 \<bar>x\<bar> + 1 \<le> - 126" by simp
    then have "(2::rat) powi (flog2 \<bar>x\<bar> + 1) \<le> 2 powi (- 126)"
      by (intro power_int_increasing) simp_all
    with flog2_bounds(2) [of "\<bar>x\<bar>"] x0 assms(1) show False by simp
  qed
  note err = f32_nearest_error [OF x0]
  have "\<bar>f32_nearest x\<bar> \<le> \<bar>x\<bar> + \<bar>x\<bar> / 2 ^ 24" using err by linarith
  also have "\<dots> \<le> 2 powi 127 + 2 powi 127 / 2 ^ 24"
    using assms(2) by (intro add_mono divide_right_mono) simp_all
  also have "\<dots> < 2 powi 128" by simp
  finally have "\<not> 2 powi 128 \<le> \<bar>f32_nearest x\<bar>" by simp
  with e x0 err show ?thesis by (simp add: f32_round_def)
qed

lemma rel_bounds:
  fixes x y :: rat
  assumes "\<bar>y - x\<bar> \<le> \<bar>x\<bar> / 2 ^ 24"
  shows "\<bar>x\<bar> / 2 \<le> \<bar>y\<bar>" and "\<bar>y\<bar> \<le> 2 * \<bar>x\<bar>"
proof -
  have "\<bar>x\<bar> / 2 ^ 24 \<le> \<bar>x\<bar> / 2" by (simp add: field_simps)
  with assms have h: "\<bar>y - x\<bar> \<le> \<bar>x\<bar> / 2" by linarith
  from h show "\<bar>x\<bar> / 2 \<le> \<bar>y\<bar>" by linarith
  from h show "\<bar>y\<bar> \<le> 2 * \<bar>x\<bar>" by linarith
qed

lemma rel_chain:
  fixes x y z :: rat
  assumes "\<bar>y - x\<bar> \<le> e * \<bar>x\<bar>" "\<bar>z - y\<bar> \<le> d * \<bar>y\<bar>" "0 \<le> d"
  shows "\<bar>z - x\<bar> \<le> (e + d + e * d) * \<bar>x\<bar>"
proof -
  have "\<bar>y\<bar> \<le> \<bar>x\<bar> + e * \<bar>x\<bar>" using assms(1) by linarith
  then have "d * \<bar>y\<bar> \<le> d * (\<bar>x\<bar> + e * \<bar>x\<bar>)"
    using assms(3) by (rule mult_left_mono)
  with assms(1,2) have "\<bar>z - x\<bar> \<le> e * \<bar>x\<bar> + d * (\<bar>x\<bar> + e * \<bar>x\<bar>)" by linarith
  then show ?thesis by (simp add: algebra_simps)
qed

lemma rel_mult:
  fixes a b c k :: rat
  assumes "\<bar>a - b\<bar> \<le> e * \<bar>b\<bar>" "\<bar>c - k\<bar> \<le> d * \<bar>k\<bar>" "0 \<le> e"
  shows "\<bar>a * c - b * k\<bar> \<le> (e + d + e * d) * \<bar>b * k\<bar>"
proof -
  have split: "a * c - b * k = (a - b) * c + b * (c - k)" by (simp add: algebra_simps)
  have c: "\<bar>c\<bar> \<le> \<bar>k\<bar> + d * \<bar>k\<bar>" using assms(2) by linarith
  have "\<bar>(a - b) * c\<bar> = \<bar>a - b\<bar> * \<bar>c\<bar>" by (simp add: abs_mult)
  also have "\<dots> \<le> (e * \<bar>b\<bar>) * (\<bar>k\<bar> + d * \<bar>k\<bar>)"
    using assms(1,3) c by (intro mult_mono) simp_all
  finally have t1: "\<bar>(a - b) * c\<bar> \<le> (e * \<bar>b\<bar>) * (\<bar>k\<bar> + d * \<bar>k\<bar>)" .
  have "\<bar>b * (c - k)\<bar> = \<bar>b\<bar> * \<bar>c - k\<bar>" by (simp add: abs_mult)
  also have "\<dots> \<le> \<bar>b\<bar> * (d * \<bar>k\<bar>)"
    using assms(2) by (intro mult_left_mono) simp_all
  finally have t2: "\<bar>b * (c - k)\<bar> \<le> \<bar>b\<bar> * (d * \<bar>k\<bar>)" .
  have "\<bar>a * c - b * k\<bar> \<le> \<bar>(a - b) * c\<bar> + \<bar>b * (c - k)\<bar>"
    unfolding split by (rule abs_triangle_ineq)
  with t1 t2 have "\<bar>a * c - b * k\<bar> \<le> (e * \<bar>b\<bar>) * (\<bar>k\<bar> + d * \<bar>k\<bar>) + \<bar>b\<bar> * (d * \<bar>k\<bar>)"
    by linarith
  then show ?thesis by (simp add: algebra_simps abs_mult)
qed

lemma f32_lit_0343: "f32_round (343 / 10000) = Some (1150917 / 33554432)"
  by code_simp

lemma f32_lit_2: "f32_round 2 = Some 2"
  by code_simp


lemma f32_round_step:
  assumes "1 / 2 ^ 100 \<le> \<bar>x\<bar>" "\<bar>x\<bar> \<le> 2 ^ 100"
  shows "\<exists>r. f32_round x = Some r \<and> \<bar>r - x\<bar> \<le> (1 / 2 ^ 24) * \<bar>x\<bar>
           \<and> \<bar>x\<bar> / 2 \<le> \<bar>r\<bar> \<and> \<bar>r\<bar> \<le> 2 * \<bar>x\<bar>"
proof -
  have "(2::rat) powi (- 126) \<le> 1 / 2 ^ 100" by (simp add: power_int_minus field_simps)
  with assms(1) have lo: "2 powi (- 126) \<le> \<bar>x\<bar>" by linarith
  have "(2::rat) ^ 100 \<le> 2 powi 127" by simp
  with assms(2) have hi: "\<bar>x\<bar> \<le> 2 powi 127" by linarith
  from f32_round_normal [OF lo hi] obtain r
    where r: "f32_round x = Some r" "\<bar>r - x\<bar> \<le> \<bar>x\<bar> / 2 ^ 24" by blast
  from rel_bounds [OF r(2)] r show ?thesis by simp
qed

lemma f32_round_0: "f32_round 0 = Some 0"
  by (simp add: f32_round_def)

lemma distance_cm_zero: "distance_cm 0 = Some 0"
  by (simp add: distance_cm_def f32_lit_0343 f32_lit_2 f32_mul_def f32_div_def f32_round_0)

lemma distance_cm_nonzero:
  assumes "d \<noteq> 0" "\<bar>d\<bar> \<le> 2 ^ 63"
  shows "\<exists>v. distance_cm d = Some v
           \<and> \<bar>v - of_int d * (343 / 20000)\<bar> \<le> (1 / 2 ^ 21) * \<bar>of_int d * (343 / 20000)\<bar>"
proof -
  define x :: rat where "x = of_int d"
  define c :: rat where "c = 1150917 / 33554432"
  define k :: rat where "k = 343 / 10000"
  define u :: rat where "u = 1 / 2 ^ 24"
  have "1 \<le> \<bar>d\<bar>" using assms(1) by simp
  then have "(1::rat) \<le> of_int \<bar>d\<bar>" by (simp only: of_int_1_le_iff)
  then have x1: "1 \<le> \<bar>x\<bar>" by (simp add: x_def)
  have "(of_int \<bar>d\<bar> :: rat) \<le> of_int (2 ^ 63)" using assms(2) by (simp only: of_int_le_iff)
  then have x2: "\<bar>x\<bar> \<le> 2 ^ 63" by (simp add: x_def)
  have "\<exists>a. f32_round x = Some a \<and> \<bar>a - x\<bar> \<le> (1 / 2 ^ 24) * \<bar>x\<bar>
           \<and> \<bar>x\<bar> / 2 \<le> \<bar>a\<bar> \<and> \<bar>a\<bar> \<le> 2 * \<bar>x\<bar>"
    using x1 x2 by (intro f32_round_step) simp_all
  then obtain a where a: "f32_round x = Some a" "\<bar>a - x\<bar> \<le> u * \<bar>x\<bar>"
      "\<bar>x\<bar> / 2 \<le> \<bar>a\<bar>" "\<bar>a\<bar> \<le> 2 * \<bar>x\<bar>"
    unfolding u_def by blast
  have ck: "\<bar>c - k\<bar> \<le> u * \<bar>k\<bar>" by (simp add: c_def k_def u_def)
  have ac: "\<bar>a * c\<bar> = \<bar>a\<bar> * c" by (simp add: abs_mult c_def)
  have ac1: "1 / 2 ^ 6 \<le> \<bar>a * c\<bar>"
  proof -
    have "1 / 2 ^ 6 \<le> 1 / 2 * c" by (simp add: c_def)
    also have "\<dots> \<le> \<bar>a\<bar> * c" using a(3) x1 by (intro mult_right_mono) (simp_all add: c_def)
    finally show ?thesis by (simp add: ac)
  qed
  have ac2: "\<bar>a * c\<bar> \<le> 2 ^ 60"
  proof -
    have "\<bar>a\<bar> * c \<le> 2 ^ 64 * c" using a(4) x2 by (intro mult_right_mono) (simp_all add: c_def)
    also have "\<dots> \<le> 2 ^ 60" by (simp add: c_def)
    finally show ?thesis by (simp add: ac)
  qed
  have "\<exists>p. f32_round (a * c) = Some p \<and> \<bar>p - a * c\<bar> \<le> (1 / 2 ^ 24) * \<bar>a * c\<bar>
           \<and> \<bar>a * c\<bar> / 2 \<le> \<bar>p\<bar> \<and> \<bar>p\<bar> \<le> 2 * \<bar>a * c\<bar>"
  proof (intro f32_round_step)
    show "1 / 2 ^ 100 \<le> \<bar>a * c\<bar>" using ac1 by simp
    show "\<bar>a * c\<bar> \<le> 2 ^ 100" using ac2 by simp
  qed
  then obtain p where p: "f32_round (a * c) = Some p" "\<bar>p - a * c\<bar> \<le> u * \<bar>a * c\<bar>"
      "\<bar>a * c\<bar> / 2 \<le> \<bar>p\<bar>" "\<bar>p\<bar> \<le> 2 * \<bar>a * c\<bar>"
    unfolding u_def by blast
  have "\<exists>v. f32_round (p / 2) = Some v \<and> \<bar>v - p / 2\<bar> \<le> (1 / 2 ^ 24) * \<bar>p / 2\<bar>
           \<and> \<bar>p / 2\<bar> / 2 \<le> \<bar>v\<bar> \<and> \<bar>v\<bar> \<le> 2 * \<bar>p / 2\<bar>"
  proof (intro f32_round_step)
    have "1 / 2 ^ 8 \<le> \<bar>p\<bar> / 2" using ac1 p(3) by simp
    then show "1 / 2 ^ 100 \<le> \<bar>p / 2\<bar>" by simp
    have "\<bar>p\<bar> / 2 \<le> 2 ^ 60" using ac2 p(4) by simp
    then show "\<bar>p / 2\<bar> \<le> 2 ^ 100" by simp
  qed
  then obtain v where v: "f32_round (p / 2) = Some v" "\<bar>v - p / 2\<bar> \<le> u * \<bar>p / 2\<bar>"
    unfolding u_def by blast
  have val: "distance_cm d = Some v"
    using a(1) p(1) v(1)
    by (simp add: distance_cm_def f32_lit_0343 f32_lit_2 f32_mul_def f32_div_def
        flip: x_def c_def)
  have u0: "0 \<le> u" by (simp add: u_def)
  note e1 = rel_mult [OF a(2) ck u0]
  note e2 = rel_chain [OF e1 p(2) u0]
  define e where "e = u + u + u * u + u + (u + u + u * u) * u"
  have "\<bar>p - x * k\<bar> \<le> e * \<bar>x * k\<bar>" using e2 by (simp add: e_def)
  then have "\<bar>p - x * k\<bar> / 2 \<le> e * \<bar>x * k\<bar> / 2" by simp
  then have e3: "\<bar>p / 2 - x * k / 2\<bar> \<le> e * \<bar>x * k / 2\<bar>"
    by (simp add: abs_divide flip: diff_divide_distrib)
  note e4 = rel_chain [OF e3 v(2) u0]
  have "e + u + e * u \<le> 1 / 2 ^ 21" by (simp add: e_def u_def)
  then have "(e + u + e * u) * \<bar>x * k / 2\<bar> \<le> (1 / 2 ^ 21) * \<bar>x * k / 2\<bar>"
    by (intro mult_right_mono) simp_all
  with e4 have "\<bar>v - x * k / 2\<bar> \<le> (1 / 2 ^ 21) * \<bar>x * k / 2\<bar>" by linarith
  moreover have "x * k / 2 = of_int d * (343 / 20000)" by (simp add: x_def k_def)
  ultimately show ?thesis using val by simp
qed


text \<open>The computed distance exists for every 64-bit duration and lies within the relative
  error \<open>2 powi (- 21)\<close> of \<open>duration * 0.0343 / 2\<close>: one rounding for the literal, one for the
  conversion of the integer, one for the product and one for the quotient.\<close>

lemma distance_cm_bound:
  assumes "\<bar>d\<bar> \<le> 2 ^ 63"
  shows "\<exists>v. distance_cm d = Some v
           \<and> \<bar>v - of_int d * (343 / 20000)\<bar> \<le> (1 / 2 ^ 21) * \<bar>of_int d * (343 / 20000)\<bar>"
proof (cases "d = 0")
  case True
  then show ?thesis by (simp add: distance_cm_zero)
next
  case False
  then show ?thesis using assms by (rule distance_cm_nonzero)
qed

lemma absolute_time_diff_us_range: "\<bar>absolute_time_diff_us a b\<bar> \<le> 2 ^ 63"
proof -
  have "- (2 ^ 63) \<le> sint (b - a)" "sint (b - a) < 2 ^ 63"
    using sint_ge [of "b - a"] sint_lt [of "b - a"] by simp_all
  then show ?thesis by (simp add: absolute_time_diff_us_def abs_le_iff)
qed

lemma distance_cm_total:
  "\<exists>v. distance_cm (absolute_time_diff_us a b) = Some v"
  using distance_cm_bound [OF absolute_time_diff_us_range [of a b]] by blast

section \<open>The time string\<close>

lemma dec_digits_length:
  assumes "n < 1000"
  shows "length (dec_digits n) \<le> 3"
proof -
  have one: "length (dec_digits k) = 1" if "k < 10" for k
    using that by (subst dec_digits.simps) simp
  have two: "length (dec_digits k) \<le> 2" if "k < 100" for k
  proof (cases "k < 10")
    case True then show ?thesis by (simp add: one)
  next
    case False
    with that have "k div 10 < 10" by simp
    with False show ?thesis by (subst dec_digits.simps) (simp add: one)
  qed
  show ?thesis
  proof (cases "n < 10")
    case True then show ?thesis by (simp add: one)
  next
    case False
    with assms have "n div 10 < 100" by simp
    from two [OF this] False show ?thesis by (subst dec_digits.simps) simp
  qed
qed

lemma fmt_02d_length:
  fixes w :: "8 word"
  shows "length (fmt_02d (sint w)) \<le> 4"
proof -
  have "- (2 ^ 7) \<le> sint w" "sint w < 2 ^ 7"
    using sint_ge [of w] sint_lt [of w] by simp_all
  then have "nat (- sint w) < 1000" "nat (sint w) < 1000" by simp_all
  from dec_digits_length [OF this(1)] dec_digits_length [OF this(2)]
  show ?thesis by (simp add: fmt_02d_def)
qed

lemma sprintf_time_total: "\<exists>str. sprintf_time now = Inr str"
proof -
  have "length (fmt_02d (sint (hour now)) @ '':'' @ fmt_02d (sint (min_t now)) @ '':''
                @ fmt_02d (sint (sec_t now))) < 16"
    using fmt_02d_length [of "hour now"] fmt_02d_length [of "min_t now"]
      fmt_02d_length [of "sec_t now"] by simp
  then show ?thesis by (simp add: sprintf_time_def Let_def)
qed

lemma is_digit_char_of:
  assumes "k < 10"
  shows "is_digit (digit_char k)"
  unfolding is_digit_def digit_char_def using assms by (intro nth_mem) simp

lemma fmt_02d_two_digits:
  assumes "0 \<le> i" "i < 100"
  shows "\<exists>a b. fmt_02d i = [a, b] \<and> is_digit a \<and> is_digit b"
proof (cases "i < 10")
  case True
  with assms have k: "nat i < 10" by simp
  then have "dec_digits (nat i) = [digit_char (nat i)]"
    by (subst dec_digits.simps) simp
  moreover have "is_digit CHR ''0''" by (simp add: is_digit_def)
  ultimately show ?thesis using True assms is_digit_char_of [OF k] by (simp add: fmt_02d_def)
next
  case False
  define n where "n = nat i"
  have n: "10 \<le> n" "n < 100" using False assms by (simp_all add: n_def)
  then have d: "n div 10 < 10" "n mod 10 < 10" by simp_all
  have "dec_digits (n div 10) = [digit_char (n div 10)]"
    using d(1) by (subst dec_digits.simps) simp
  then have "dec_digits n = [digit_char (n div 10), digit_char (n mod 10)]"
    using n(1) by (subst dec_digits.simps) simp
  with is_digit_char_of [OF d(1)] is_digit_char_of [OF d(2)] False assms
  show ?thesis by (simp add: fmt_02d_def n_def)
qed

lemma sprintf_time_valid:
  assumes "valid_time now"
  shows "\<exists>str. sprintf_time now = Inr str \<and> is_hh_mm_ss str"
proof -
  from assms have h: "0 \<le> sint (hour now)" "sint (hour now) < 100"
    and m: "0 \<le> sint (min_t now)" "sint (min_t now) < 100"
    and s: "0 \<le> sint (sec_t now)" "sint (sec_t now) < 100"
    by (simp_all add: valid_time_def)
  from fmt_02d_two_digits [OF h] fmt_02d_two_digits [OF m] fmt_02d_two_digits [OF s]
  show ?thesis by (auto simp: sprintf_time_def Let_def is_hh_mm_ss_def)
qed

section \<open>The foreground loop: frame and totality\<close>

lemma reports_append [simp]: "reports (xs @ ys) = reports xs @ reports ys"
  by (induction xs rule: reports.induct) simp_all

lemma buf_write_ok:
  assumes "0 \<le> i" "i < int (length buf)"
  shows "buf_write buf i c = Inr (buf[nat i := c])"
  using assms by (simp add: buf_write_def)

lemma handle_char_frame:
  assumes "handle_char c s = Inr (k, s1, a1)"
  shows "current_state s1 = current_state s \<and> echo_start_time s1 = echo_start_time s
       \<and> echo_end_time s1 = echo_end_time s \<and> measurement_alarm_id s1 = measurement_alarm_id s
       \<and> reports a1 = [] \<and> filter is_trigger_or_alarm a1 = []"
  using assms
  by (auto simp: handle_char_def Let_def is_report_def is_trigger_or_alarm_def
      split: if_splits sum.splits)

lemma handle_char_total:
  assumes "buffer_ok s"
  shows "\<exists>k s1 a1. handle_char c s = Inr (k, s1, a1) \<and> buffer_ok s1"
proof -
  from assms have len: "length (cmd_buffer s) = nat CMD_BUFFER_SIZE"
    and idx: "0 \<le> cmd_index s" "cmd_index s \<le> CMD_BUFFER_SIZE - 1"
    by (simp_all add: buffer_ok_def)
  then have inb: "cmd_index s < int (length (cmd_buffer s))"
    by (simp add: CMD_BUFFER_SIZE_def)
  show ?thesis
    using len idx inb
    by (auto simp: handle_char_def buf_write_def Let_def buffer_ok_def CMD_BUFFER_SIZE_def)
qed

lemma main_console_frame:
  assumes "main_console inp s = Inr (k, s1, a1)"
  shows "current_state s1 = current_state s \<and> echo_start_time s1 = echo_start_time s
       \<and> echo_end_time s1 = echo_end_time s \<and> measurement_alarm_id s1 = measurement_alarm_id s
       \<and> reports a1 = [] \<and> filter is_trigger_or_alarm a1 = []"
proof (cases "getchar_result inp")
  case None
  with assms show ?thesis by (simp add: main_console_def)
next
  case (Some c)
  with assms have "handle_char c s = Inr (k, s1, a1)" by (simp add: main_console_def)
  then show ?thesis by (rule handle_char_frame)
qed

lemma main_console_total:
  assumes "buffer_ok s"
  shows "\<exists>k s1 a1. main_console inp s = Inr (k, s1, a1) \<and> buffer_ok s1"
  using assms handle_char_total [OF assms]
  by (cases "getchar_result inp") (auto simp: main_console_def)

lemma main_report_total:
  "\<exists>s3 a3. main_report now s = Inr (s3, a3) \<and> cmd_buffer s3 = cmd_buffer s \<and> cmd_index s3 = cmd_index s"
proof -
  obtain str where str: "sprintf_time now = Inr str"
    using sprintf_time_total by blast
  obtain v where v: "distance_cm (absolute_time_diff_us (echo_start_time s) (echo_end_time s)) = Some v"
    using distance_cm_total by blast
  show ?thesis by (simp add: main_report_def str v Let_def)
qed

lemma main_iter_cases:
  assumes "main_iter inp s = Inr (s', acts)"
  obtains (skipped) "main_console inp s = Inr (True, s', acts)"
  | (full) s1 a1 s2 a2 a3 where "main_console inp s = Inr (False, s1, a1)"
      "main_trigger (alarm_result inp) s1 = (s2, a2)"
      "main_report (rtc_now inp) s2 = Inr (s', a3)"
      "acts = a1 @ a2 @ a3 @ [Sleep_ms 10]"
  using assms
  by (auto simp: main_iter_def split: sum.splits prod.splits if_splits)

lemma main_iter_total:
  assumes "buffer_ok s"
  shows "\<exists>s' acts. main_iter inp s = Inr (s', acts) \<and> buffer_ok s'"
proof -
  from main_console_total [OF assms] obtain k s1 a1
    where c: "main_console inp s = Inr (k, s1, a1)" "buffer_ok s1" by blast
  obtain s2 a2 where t: "main_trigger (alarm_result inp) s1 = (s2, a2)"
    by (cases "main_trigger (alarm_result inp) s1")
  have b2: "buffer_ok s2"
    using t c(2) by (auto simp: main_trigger_def buffer_ok_def split: if_splits)
  from main_report_total [of "rtc_now inp" s2] obtain s3 a3
    where r: "main_report (rtc_now inp) s2 = Inr (s3, a3)" "cmd_buffer s3 = cmd_buffer s2"
      "cmd_index s3 = cmd_index s2" by blast
  have b3: "buffer_ok s3" using b2 r(2,3) by (simp add: buffer_ok_def)
  show ?thesis using c t r(1) b3 by (simp add: main_iter_def)
qed

lemma main_trigger_actions:
  assumes "main_trigger new_alarm s1 = (s2, a2)"
  shows "(system_running s1 \<and> current_state s1 = STATE_IDLE \<longrightarrow>
            a2 = send_trigger_pulse @ [Add_alarm_in_us MEASUREMENT_TIMEOUT_US True]
            \<and> s2 = s1\<lparr>current_state := STATE_WAITING_FOR_ECHO, measurement_alarm_id := new_alarm\<rparr>)
       \<and> (\<not> (system_running s1 \<and> current_state s1 = STATE_IDLE) \<longrightarrow> a2 = [] \<and> s2 = s1)"
  using assms by (auto simp: main_trigger_def split: if_splits)

lemma main_report_actions:
  assumes "main_report now s2 = Inr (s3, a3)"
  shows "filter is_trigger_or_alarm a3 = [] \<and> system_running s3 = system_running s2"
  using assms
  by (auto simp: main_report_def Let_def is_trigger_or_alarm_def
      split: if_splits sum.splits option.splits)

lemma distance_cm_600: "distance_cm 600 = Some (10789847 / 1048576)"
  by code_simp

lemma sprintf_time_init: "sprintf_time t_init = Inr ''10:00:00''"
  by code_simp

lemma valid_time_init: "valid_time t_init"
  by (simp add: valid_time_def t_init_def)

lemma main_report_cases:
  assumes "main_report now s2 = Inr (s3, a3)"
  shows "(current_state s2 = STATE_MEASUREMENT_COMPLETE \<longrightarrow>
            (\<exists>time_str v. sprintf_time now = Inr time_str
               \<and> distance_cm (absolute_time_diff_us (echo_start_time s2) (echo_end_time s2)) = Some v
               \<and> reports a3 = [Msg_distance time_str v]
               \<and> s3 = s2\<lparr>current_state := STATE_IDLE\<rparr>))
       \<and> (current_state s2 = STATE_MEASUREMENT_ERROR \<longrightarrow>
            (\<exists>time_str. sprintf_time now = Inr time_str
               \<and> reports a3 = [Msg_failure time_str]
               \<and> s3 = s2\<lparr>current_state := STATE_IDLE\<rparr>))
       \<and> (current_state s2 \<noteq> STATE_MEASUREMENT_COMPLETE \<and> current_state s2 \<noteq> STATE_MEASUREMENT_ERROR \<longrightarrow>
            reports a3 = [] \<and> s3 = s2)"
  using assms
  by (auto simp: main_report_def Let_def is_report_def split: if_splits sum.splits option.splits)

lemma buffer_ok_init: "buffer_ok g_state_init"
  by (simp add: buffer_ok_def g_state_init_def CMD_BUFFER_SIZE_def)

lemma buffer_ok_update [simp]:
  "buffer_ok (s\<lparr>current_state := st\<rparr>) = buffer_ok s"
  "buffer_ok (s\<lparr>echo_start_time := t\<rparr>) = buffer_ok s"
  "buffer_ok (s\<lparr>echo_end_time := t\<rparr>) = buffer_ok s"
  "buffer_ok (s\<lparr>measurement_alarm_id := a\<rparr>) = buffer_ok s"
  "buffer_ok (s\<lparr>system_running := b\<rparr>) = buffer_ok s"
  by (simp_all add: buffer_ok_def)

lemma step_total:
  assumes "buffer_ok s"
  shows "\<exists>s' acts. step e s = Inr (s', acts) \<and> buffer_ok s'"
proof (cases e)
  case (Iter inp)
  with main_iter_total [OF assms, of inp] show ?thesis by simp
next
  case (Irq i)
  with assms show ?thesis
    by (cases i) (simp_all add: echo_callback_def timeout_callback_def Let_def)
qed

lemma run_total:
  assumes "buffer_ok s"
  shows "\<exists>s' acts. run es s = Inr (s', acts) \<and> buffer_ok s'"
  using assms
proof (induction es arbitrary: s)
  case Nil
  then show ?case by simp
next
  case (Cons e es)
  from step_total [OF Cons.prems] obtain s1 a1
    where st: "step e s = Inr (s1, a1)" "buffer_ok s1" by blast
  from Cons.IH [OF st(2)] obtain s2 a2
    where "run es s1 = Inr (s2, a2)" "buffer_ok s2" by blast
  with st(1) show ?case by simp
qed

section \<open>Evaluating concrete runs\<close>

lemmas iter_defs = main_iter_def main_console_def main_trigger_def main_report_def no_char_def
  send_trigger_pulse_def TRIGGER_PIN_def MEASUREMENT_TIMEOUT_US_def

lemmas irq_defs = echo_callback_def timeout_callback_def ECHO_PIN_def GPIO_IRQ_EDGE_RISE_def
  GPIO_IRQ_EDGE_FALL_def Let_def

lemma distance_cm_1029900: "distance_cm 1029900 = Some (4521673 / 256)"
  by code_simp

lemma distance_cm_1030400: "distance_cm 1030400 = Some (1130967 / 64)"
  by code_simp

lemma d600: "absolute_time_diff_us 100 700 = 600"
  by (simp add: absolute_time_diff_us_def)

lemma d1029900: "absolute_time_diff_us 100 1030000 = 1029900"
  by (simp add: absolute_time_diff_us_def)

lemma d1030400: "absolute_time_diff_us 100 1030500 = 1030400"
  by (simp add: absolute_time_diff_us_def)

lemma irq_terminal:
  assumes "current_state s = STATE_WAITING_FOR_ECHO" "is_falling_edge e \<or> is_timeout e"
  shows "(is_falling_edge e \<longrightarrow> current_state (irq_step e s) = STATE_MEASUREMENT_COMPLETE)
       \<and> (is_timeout e \<longrightarrow> current_state (irq_step e s) = STATE_MEASUREMENT_ERROR)
       \<and> system_running (irq_step e s) = system_running s
       \<and> cmd_buffer (irq_step e s) = cmd_buffer s \<and> cmd_index (irq_step e s) = cmd_index s"
  using assms
  by (cases e)
    (auto simp: is_falling_edge_def is_timeout_def echo_callback_def timeout_callback_def Let_def)

lemma main_console_not_line_end:
  assumes "main_console inp s = Inr (k, s1, a1)"
    and "getchar_result inp \<noteq> Some (CHR 0x0D)" "getchar_result inp \<noteq> Some (CHR 0x0A)"
  shows "\<not> k \<and> system_running s1 = system_running s"
  using assms
  by (cases "getchar_result inp")
    (auto simp: main_console_def handle_char_def split: if_splits sum.splits)

lemma distance_cm_neg600: "distance_cm (- 600) = Some (- (10789847 / 1048576))"
  by code_simp

lemma rel_sign:
  fixes v t :: rat
  assumes "\<bar>v - t\<bar> \<le> (1 / 2 ^ 21) * \<bar>t\<bar>"
  shows "(t < 0 \<longrightarrow> v < 0) \<and> (0 < t \<longrightarrow> 0 < v)"
proof -
  have "(1 / 2 ^ 21) * \<bar>t\<bar> \<le> \<bar>t\<bar> / 2" by simp
  with assms have "\<bar>v - t\<bar> \<le> \<bar>t\<bar> / 2" by linarith
  then show ?thesis by (auto simp: abs_le_iff abs_if split: if_splits)
qed

section \<open>Properties of \<^verbatim>\<open>main/main.c\<close>\<close>

text \<open>The flag-based program has no state enum. Its falling-edge handler records nothing
  unless a measurement is pending, its alarm callback sets its flag whatever the measurement
  has done, its alarm is armed for 500 milliseconds, it does not write the timestamps when
  it starts a measurement, and its report has a third line for a measurement that neither
  completed nor timed out.\<close>

lemma trigger_callback_not_pending:
  assumes "flag_f_trigger st = 0"
  shows "trigger_callback main_ECHO_PIN 0x4 t_rise t_fall st = (st, [])"
  using assms by (simp add: trigger_callback_def)

lemma trigger_callback_pending:
  assumes "flag_f_trigger st \<noteq> 0"
  shows "fst (trigger_callback main_ECHO_PIN 0x4 t_rise t_fall st)
           = st\<lparr>t_descida := t_fall, flag_f_trigger := 0, timer_fired := False,
                action_completed := True\<rparr>"
  using assms by (simp add: trigger_callback_def Let_def)

lemma alarm_callback_always:
  "alarm_callback alarm st = (0, st\<lparr>timer_fired := True\<rparr>)"
  by (simp add: alarm_callback_def)

lemma begin_measurement_effect:
  "snd (begin_measurement new_alarm st)
     = [Gpio_put 15 True, Sleep_us 10, Gpio_put 15 False, Add_alarm_in_ms 500 False]
   \<and> t_subida (fst (begin_measurement new_alarm st)) = t_subida st
   \<and> t_descida (fst (begin_measurement new_alarm st)) = t_descida st"
  by (simp add: begin_measurement_def main_TRIG_PIN_def)

lemma report_measurement_incomplete:
  assumes "\<not> action_completed st" "\<not> timer_fired st"
  shows "report_measurement st = Inr Out_incomplete"
  using assms by (simp add: report_measurement_def)

lemma trigger_callback_other_events:
  assumes "ev \<noteq> 0x4"
  shows "t_descida (fst (trigger_callback gpio ev t_rise t_fall st)) = t_descida st
       \<and> action_completed (fst (trigger_callback gpio ev t_rise t_fall st)) = action_completed st
       \<and> snd (trigger_callback gpio ev t_rise t_fall st) = []"
  using assms by (simp add: trigger_callback_def Let_def)

lemma print_datetime_valid:
  assumes "valid_time now"
  shows "\<exists>str. print_datetime now = str @ '' - '' \<and> is_hh_mm_ss str"
proof -
  from sprintf_time_valid [OF assms] obtain str
    where s: "sprintf_time now = Inr str" "is_hh_mm_ss str" by blast
  from s(1) have "print_datetime now = str @ '' - ''"
    by (auto simp: sprintf_time_def print_datetime_def Let_def split: if_splits)
  with s(2) show ?thesis by blast
qed

text \<open>What it shares with the state machine: the distance is the same single-precision
  expression of the signed difference of its two timestamps, a pulse is sent only while the
  run flag is set, and its command buffer of 20 bytes is never written out of bounds.\<close>

lemma report_measurement_distance:
  assumes "action_completed st"
  shows "\<exists>v. report_measurement st = Inr (Out_distance v)
           \<and> distance_cm (sint (t_descida st - t_subida st)) = Some v
           \<and> \<bar>v - of_int (sint (t_descida st - t_subida st)) * (343 / 20000)\<bar>
               \<le> (1 / 2 ^ 21) * \<bar>of_int (sint (t_descida st - t_subida st)) * (343 / 20000)\<bar>"
proof -
  have "\<bar>sint (t_descida st - t_subida st)\<bar> \<le> 2 ^ 63"
    using absolute_time_diff_us_range [of "t_subida st" "t_descida st"]
    by (simp add: absolute_time_diff_us_def)
  from distance_cm_bound [OF this] assms show ?thesis
    by (auto simp: report_measurement_def absolute_time_diff_us_def)
qed

lemma try_begin_measurement_gated:
  assumes "\<not> active"
  shows "try_begin_measurement active elapsed_us new_alarm st = (st, [])"
  using assms by (simp add: try_begin_measurement_def measurement_due_def)

lemma command_char_total:
  assumes "command_ok cl"
  shows "\<exists>cl1 replies. command_char ch cl = Inr (cl1, replies) \<and> command_ok cl1"
proof -
  from assms have len: "length (command cl) = 20"
    and idx: "0 \<le> command_index cl" "command_index cl \<le> 19"
    by (simp_all add: command_ok_def)
  then show ?thesis
    by (auto simp: command_char_def buf_write_def Let_def command_ok_def)
qed

lemma command_chars_total:
  assumes "command_ok cl"
  shows "\<exists>cl1. command_chars chs cl = Inr cl1 \<and> command_ok cl1"
  using assms
proof (induction chs arbitrary: cl)
  case Nil
  then show ?case by simp
next
  case (Cons ch chs)
  from command_char_total [OF Cons.prems] obtain cl1 replies
    where c: "command_char ch cl = Inr (cl1, replies)" "command_ok cl1" by blast
  from Cons.IH [OF c(2)] c(1) show ?case by simp
qed

section \<open>The timestamps in a run\<close>

lemma main_iter_timestamps:
  assumes "main_iter inp s = Inr (s', acts)"
  shows "echo_start_time s' = echo_start_time s \<and> echo_end_time s' = echo_end_time s"
  using assms
proof (cases rule: main_iter_cases)
  case skipped
  from main_console_frame [OF this] show ?thesis by simp
next
  case (full s1 a1 s2 a2 a3)
  note c = main_console_frame [OF full(1)]
  have t: "echo_start_time s2 = echo_start_time s1 \<and> echo_end_time s2 = echo_end_time s1"
    using full(2) by (auto simp: main_trigger_def split: if_splits)
  have r: "echo_start_time s' = echo_start_time s2 \<and> echo_end_time s' = echo_end_time s2"
    using full(3)
    by (auto simp: main_report_def Let_def split: if_splits sum.splits option.splits)
  from c t r show ?thesis by simp
qed

lemma step_timestamps:
  assumes "step e s = Inr (s', acts)"
  shows "(echo_start_time s', echo_end_time s') = stamp e (echo_start_time s, echo_end_time s)"
proof (cases e)
  case (Iter inp)
  with assms main_iter_timestamps [of inp s s' acts] show ?thesis by simp
next
  case (Irq i)
  with assms show ?thesis
    by (cases i) (auto simp: echo_callback_def timeout_callback_def Let_def split: if_splits)
qed

lemma run_timestamps:
  assumes "run es s = Inr (s', acts)"
  shows "(echo_start_time s', echo_end_time s') = fold stamp es (echo_start_time s, echo_end_time s)"
  using assms
proof (induction es arbitrary: s acts)
  case Nil
  then show ?case by simp
next
  case (Cons e es)
  from Cons.prems obtain s1 a1 a2 where st: "step e s = Inr (s1, a1)"
    and rest: "run es s1 = Inr (s', a2)"
    by (auto split: sum.splits)
  from Cons.IH [OF rest] step_timestamps [OF st] show ?case by simp
qed

lemma rises_snoc: "rises (es @ [e]) = rises es @ (case rise_time e of None \<Rightarrow> [] | Some t \<Rightarrow> [t])"
  by (simp add: rises_def List.map_filter_def split: option.splits)

lemma falls_snoc: "falls (es @ [e]) = falls es @ (case fall_time e of None \<Rightarrow> [] | Some t \<Rightarrow> [t])"
  by (simp add: falls_def List.map_filter_def split: option.splits)

lemma stamp_edges:
  "stamp e (a, b) = (case rise_time e of None \<Rightarrow> a | Some t \<Rightarrow> t,
                     case fall_time e of None \<Rightarrow> b | Some t \<Rightarrow> t)"
proof (cases e)
  case (Iter inp)
  then show ?thesis by simp
next
  case (Irq i)
  then show ?thesis by (cases i) simp_all
qed

lemma fold_stamp_latest:
  "fold stamp es (a, b)
     = (if rises es = [] then a else last (rises es), if falls es = [] then b else last (falls es))"
proof (induction es rule: rev_induct)
  case Nil
  then show ?case by (simp add: rises_def falls_def List.map_filter_def)
next
  case (snoc e es)
  then show ?case
    by (simp add: stamp_edges rises_snoc falls_snoc split: option.splits)
qed

lemma main_iter_not_complete:
  assumes "main_iter inp s = Inr (s', acts)"
  shows "current_state s' \<noteq> STATE_MEASUREMENT_COMPLETE \<or> s' = s"
  using assms
proof (cases rule: main_iter_cases)
  case skipped
  then have "s' = s"
    by (auto simp: main_console_def handle_char_def Let_def split: option.splits if_splits sum.splits)
  then show ?thesis by simp
next
  case (full s1 a1 s2 a2 a3)
  note c = main_console_frame [OF full(1)]
  note t = main_trigger_actions [OF full(2)]
  note r = main_report_cases [OF full(3)]
  show ?thesis
  proof (cases "current_state s")
    case STATE_IDLE
    with c t r show ?thesis
      by (cases "system_running s1") auto
  next
    case STATE_WAITING_FOR_ECHO
    with c t r show ?thesis by auto
  next
    case STATE_MEASUREMENT_COMPLETE
    with c t r show ?thesis by auto
  next
    case STATE_MEASUREMENT_ERROR
    with c t r show ?thesis by auto
  qed
qed

lemma step_complete_needs_fall:
  assumes "step e s = Inr (s', acts)"
    and "current_state s \<noteq> STATE_MEASUREMENT_COMPLETE"
    and "current_state s' = STATE_MEASUREMENT_COMPLETE"
  shows "fall_time e \<noteq> None"
proof (cases e)
  case (Iter inp)
  with assms(1) have "main_iter inp s = Inr (s', acts)" by simp
  from main_iter_not_complete [OF this] assms(2,3) show ?thesis by auto
next
  case (Irq i)
  with assms show ?thesis
    by (cases i) (auto simp: echo_callback_def timeout_callback_def Let_def split: if_splits)
qed

lemma run_complete_needs_fall:
  assumes "run es s = Inr (s', acts)"
    and "current_state s \<noteq> STATE_MEASUREMENT_COMPLETE"
    and "current_state s' = STATE_MEASUREMENT_COMPLETE"
  shows "falls es \<noteq> []"
  using assms
proof (induction es arbitrary: s' acts rule: rev_induct)
  case Nil
  then show ?case by simp
next
  case (snoc e es)
  show ?case
  proof (cases "fall_time e")
    case (Some t)
    then show ?thesis by (simp add: falls_snoc)
  next
    case None
    have "\<exists>s1 a1 a2. run es s = Inr (s1, a1) \<and> step e s1 = Inr (s', a2)"
      using snoc.prems(1)
    proof (induction es arbitrary: s acts)
      case Nil
      then show ?case by (auto split: sum.splits)
    next
      case (Cons x xs)
      from Cons.prems obtain sx ax ar where x: "step x s = Inr (sx, ax)"
        and r: "run (xs @ [e]) sx = Inr (s', ar)"
        by (auto split: sum.splits)
      from Cons.IH [OF r] obtain s1 a1 a2 where "run xs sx = Inr (s1, a1)" "step e s1 = Inr (s', a2)"
        by blast
      with x show ?case by auto
    qed
    then obtain s1 a1 a2 where r: "run es s = Inr (s1, a1)" and st: "step e s1 = Inr (s', a2)"
      by blast
    have "current_state s1 = STATE_MEASUREMENT_COMPLETE"
    proof (rule ccontr)
      assume "current_state s1 \<noteq> STATE_MEASUREMENT_COMPLETE"
      from step_complete_needs_fall [OF st this snoc.prems(3)] None show False by simp
    qed
    from snoc.IH [OF r snoc.prems(2) this] show ?thesis by (simp add: falls_snoc)
  qed
qed

section \<open>Runs of interrupts\<close>

lemma irq_step_terminal:
  assumes "current_state s \<noteq> STATE_WAITING_FOR_ECHO"
  shows "current_state (irq_step e s) = current_state s"
  using assms
  by (cases e) (simp_all add: echo_callback_def timeout_callback_def Let_def)

lemma irq_run_Cons: "irq_run es s = s # tl (irq_run es s)"
  by (cases es) simp_all

lemma leaves_waiting_step:
  "leaves_waiting (irq_run (e # es) s)
     = (if current_state s = STATE_WAITING_FOR_ECHO
           \<and> current_state (irq_step e s) \<noteq> STATE_WAITING_FOR_ECHO then 1 else 0)
       + leaves_waiting (irq_run es (irq_step e s))"
proof -
  obtain rest where r: "irq_run es (irq_step e s) = irq_step e s # rest"
    using irq_run_Cons [of es "irq_step e s"] by blast
  show ?thesis by (simp add: r)
qed

lemma leaves_waiting_terminal:
  assumes "current_state s \<noteq> STATE_WAITING_FOR_ECHO"
  shows "leaves_waiting (irq_run es s) = 0"
  using assms
proof (induction es arbitrary: s)
  case Nil
  then show ?case by simp
next
  case (Cons e es)
  from irq_step_terminal [OF Cons.prems]
  have "current_state (irq_step e s) \<noteq> STATE_WAITING_FOR_ECHO" using Cons.prems by simp
  from Cons.IH [OF this] Cons.prems show ?case by (subst leaves_waiting_step) simp
qed

lemma leaves_waiting_at_most_once: "leaves_waiting (irq_run es s) \<le> 1"
proof (induction es arbitrary: s)
  case Nil
  then show ?case by simp
next
  case (Cons e es)
  show ?case
  proof (cases "current_state (irq_step e s) = STATE_WAITING_FOR_ECHO")
    case True
    with Cons.IH [of "irq_step e s"] show ?thesis by (subst leaves_waiting_step) simp
  next
    case False
    from leaves_waiting_terminal [OF this] show ?thesis by (subst leaves_waiting_step) simp
  qed
qed

section \<open>The handlers and the foreground loop of the state machine\<close>

lemma echo_callback_falling_edge:
  assumes "events AND GPIO_IRQ_EDGE_FALL \<noteq> 0"
    and "echo_callback ECHO_PIN events t_rise t_fall s = (s', acts)"
  shows "echo_end_time s' = t_fall
       \<and> (current_state s = STATE_WAITING_FOR_ECHO \<longrightarrow>
            current_state s' = STATE_MEASUREMENT_COMPLETE
            \<and> acts = [Cancel_alarm (measurement_alarm_id s)])
       \<and> (current_state s \<noteq> STATE_WAITING_FOR_ECHO \<longrightarrow>
            current_state s' = current_state s \<and> acts = [])"
  using assms by (auto simp: echo_callback_def Let_def split: if_splits)

lemma timeout_callback_effect:
  assumes "timeout_callback alarm s = (r, s')"
  shows "r = 0
       \<and> (current_state s = STATE_WAITING_FOR_ECHO \<longrightarrow>
            s' = s\<lparr>current_state := STATE_MEASUREMENT_ERROR\<rparr>)
       \<and> (current_state s \<noteq> STATE_WAITING_FOR_ECHO \<longrightarrow> s' = s)"
  using assms by (auto simp: timeout_callback_def split: if_splits)

lemma main_trigger_pulse:
  assumes "step e s = Inr (s', acts)"
    and "current_state s = STATE_IDLE" and "current_state s' = STATE_WAITING_FOR_ECHO"
  shows "\<exists>inp pre. e = Iter inp
       \<and> acts = pre @ [Gpio_put TRIGGER_PIN True, Sleep_us 10, Gpio_put TRIGGER_PIN False,
                       Add_alarm_in_us 30000 True, Sleep_ms 10]
       \<and> filter is_trigger_or_alarm pre = []
       \<and> measurement_alarm_id s' = alarm_result inp"
proof (cases e)
  case (Iter inp)
  with assms(1) have it: "main_iter inp s = Inr (s', acts)" by simp
  then show ?thesis
  proof (cases rule: main_iter_cases)
    case skipped
    from main_console_frame [OF this] assms(2,3) show ?thesis by simp
  next
    case (full s1 a1 s2 a2 a3)
    note c = main_console_frame [OF full(1)]
    note t = main_trigger_actions [OF full(2)]
    have go: "system_running s1 \<and> current_state s1 = STATE_IDLE"
    proof (rule ccontr)
      assume "\<not> ?thesis"
      with t have "s2 = s1" by simp
      with c assms(2) have "current_state s2 = STATE_IDLE" by simp
      with full(3) have "current_state s' = STATE_IDLE"
        by (simp add: main_report_def)
      with assms(3) show False by simp
    qed
    with t have a2: "a2 = send_trigger_pulse @ [Add_alarm_in_us MEASUREMENT_TIMEOUT_US True]"
      and s2: "s2 = s1\<lparr>current_state := STATE_WAITING_FOR_ECHO, measurement_alarm_id := alarm_result inp\<rparr>"
      by simp_all
    from full(3) s2 have "a3 = []" "s' = s2" by (simp_all add: main_report_def)
    with a2 s2 c Iter show ?thesis
      by (simp add: full(4) send_trigger_pulse_def MEASUREMENT_TIMEOUT_US_def)
  qed
next
  case (Irq i)
  with assms show ?thesis
    by (cases i) (auto simp: echo_callback_def timeout_callback_def Let_def split: if_splits)
qed

lemma main_iter_report:
  assumes "buffer_ok s"
  shows "\<exists>s' acts. main_iter inp s = Inr (s', acts) \<and>
     (if current_state s = STATE_MEASUREMENT_COMPLETE \<or> current_state s = STATE_MEASUREMENT_ERROR
      then (main_console inp s = Inr (True, s', acts) \<and> s' = s \<and> reports acts = [])
         \<or> (current_state s' = STATE_IDLE
            \<and> (\<exists>time_str. sprintf_time (rtc_now inp) = Inr time_str
                 \<and> (valid_time (rtc_now inp) \<longrightarrow> is_hh_mm_ss time_str)
                 \<and> (if current_state s = STATE_MEASUREMENT_COMPLETE
                     then \<exists>v. reports acts = [Msg_distance time_str v]
                            \<and> map (render_report fmt) (reports acts)
                                = [[CHR 0x0A] @ time_str @ '' - '' @ fmt v @ '' cm'' @ [CHR 0x0A]]
                     else reports acts = [Msg_failure time_str]
                            \<and> map (render_report fmt) (reports acts)
                                = [[CHR 0x0A] @ time_str @ '' - Falha'' @ [CHR 0x0A]])))
      else reports acts = [])"
proof -
  from main_iter_total [OF assms] obtain s' acts
    where it: "main_iter inp s = Inr (s', acts)" by blast
  from it have "if current_state s = STATE_MEASUREMENT_COMPLETE \<or> current_state s = STATE_MEASUREMENT_ERROR
      then (main_console inp s = Inr (True, s', acts) \<and> s' = s \<and> reports acts = [])
         \<or> (current_state s' = STATE_IDLE
            \<and> (\<exists>time_str. sprintf_time (rtc_now inp) = Inr time_str
                 \<and> (valid_time (rtc_now inp) \<longrightarrow> is_hh_mm_ss time_str)
                 \<and> (if current_state s = STATE_MEASUREMENT_COMPLETE
                     then \<exists>v. reports acts = [Msg_distance time_str v]
                            \<and> map (render_report fmt) (reports acts)
                                = [[CHR 0x0A] @ time_str @ '' - '' @ fmt v @ '' cm'' @ [CHR 0x0A]]
                     else reports acts = [Msg_failure time_str]
                            \<and> map (render_report fmt) (reports acts)
                                = [[CHR 0x0A] @ time_str @ '' - Falha'' @ [CHR 0x0A]])))
      else reports acts = []"
  proof (cases rule: main_iter_cases)
    case skipped
    from main_console_frame [OF skipped] have "reports acts = []" by simp
    moreover from skipped have "s' = s"
      by (auto simp: main_console_def handle_char_def Let_def split: option.splits if_splits sum.splits)
    ultimately show ?thesis using skipped by simp
  next
    case (full s1 a1 s2 a2 a3)
    note c = main_console_frame [OF full(1)]
    note t = main_trigger_actions [OF full(2)]
    note r = main_report_cases [OF full(3)]
    have a2: "reports a2 = []"
      using t by (cases "system_running s1 \<and> current_state s1 = STATE_IDLE")
        (simp_all add: send_trigger_pulse_def)
    have acts: "reports acts = reports a3" using c a2 by (simp add: full(4))
    show ?thesis
    proof (cases "current_state s = STATE_MEASUREMENT_COMPLETE \<or> current_state s = STATE_MEASUREMENT_ERROR")
      case True
      with c t have s2: "s2 = s1" "current_state s2 = current_state s" by auto
      obtain time_str where ts: "sprintf_time (rtc_now inp) = Inr time_str"
        using sprintf_time_total by blast
      have shape: "valid_time (rtc_now inp) \<longrightarrow> is_hh_mm_ss time_str"
        using sprintf_time_valid [of "rtc_now inp"] ts by auto
      from True r s2 ts shape acts show ?thesis
        by (auto simp: render_report_def)
    next
      case False
      with c t have "current_state s2 \<noteq> STATE_MEASUREMENT_COMPLETE"
        "current_state s2 \<noteq> STATE_MEASUREMENT_ERROR"
        by (cases "system_running s1 \<and> current_state s1 = STATE_IDLE"; simp)+
      with r acts False show ?thesis by simp
    qed
  qed
  with it show ?thesis by blast
qed

section \<open>Properties of the callbacks\<close>

text \<open>
  C1. From \<^verbatim>\<open>STATE_WAITING_FOR_ECHO\<close>, one falling edge on the echo pin and one firing of
  the timeout, serialized in either order, leave the waiting state exactly once and reach
  exactly one terminal state: \<^verbatim>\<open>STATE_MEASUREMENT_COMPLETE\<close> when the edge comes first,
  \<^verbatim>\<open>STATE_MEASUREMENT_ERROR\<close> when the timeout comes first. The second event finds the
  state terminal and leaves it as it is. More generally, no run of interrupts, however
  many edges and timeouts it holds, leaves the waiting state more than once.
\<close>

theorem race_exactly_one_terminal:
  assumes "current_state s = STATE_WAITING_FOR_ECHO"
    and "is_falling_edge f" and "is_timeout t"
  shows "map current_state (irq_run [f, t] s)
           = [STATE_WAITING_FOR_ECHO, STATE_MEASUREMENT_COMPLETE, STATE_MEASUREMENT_COMPLETE]
       \<and> map current_state (irq_run [t, f] s)
           = [STATE_WAITING_FOR_ECHO, STATE_MEASUREMENT_ERROR, STATE_MEASUREMENT_ERROR]
       \<and> leaves_waiting (irq_run [f, t] s) = 1
       \<and> leaves_waiting (irq_run [t, f] s) = 1
       \<and> leaves_waiting (irq_run es s) \<le> 1"
proof -
  from assms(2) obtain events t_rise t_fall
    where f: "f = Echo_irq ECHO_PIN events t_rise t_fall" "events AND GPIO_IRQ_EDGE_FALL \<noteq> 0"
    by (auto simp: is_falling_edge_def split: irq.splits)
  from assms(3) obtain alarm where t: "t = Alarm_irq alarm"
    by (auto simp: is_timeout_def split: irq.splits)
  show ?thesis
    using assms(1) f(2) leaves_waiting_at_most_once [of es s]
    by (simp add: f(1) t echo_callback_def timeout_callback_def Let_def)
qed

theorem race_exactly_one_terminal_witness:
  "current_state (g_state_init\<lparr>current_state := STATE_WAITING_FOR_ECHO\<rparr>) = STATE_WAITING_FOR_ECHO
   \<and> is_falling_edge (Echo_irq 27 4 0 700) \<and> is_timeout (Alarm_irq 1)
   \<and> map current_state (irq_run [Echo_irq 27 4 0 700, Alarm_irq 1]
        (g_state_init\<lparr>current_state := STATE_WAITING_FOR_ECHO\<rparr>))
       = [STATE_WAITING_FOR_ECHO, STATE_MEASUREMENT_COMPLETE, STATE_MEASUREMENT_COMPLETE]
   \<and> map current_state (irq_run [Alarm_irq 1, Echo_irq 27 4 0 700]
        (g_state_init\<lparr>current_state := STATE_WAITING_FOR_ECHO\<rparr>))
       = [STATE_WAITING_FOR_ECHO, STATE_MEASUREMENT_ERROR, STATE_MEASUREMENT_ERROR]"
proof -
  have a: "current_state (g_state_init\<lparr>current_state := STATE_WAITING_FOR_ECHO\<rparr>)
             = STATE_WAITING_FOR_ECHO"
    by simp
  have b: "is_falling_edge (Echo_irq 27 4 0 700)"
    by (simp add: is_falling_edge_def ECHO_PIN_def GPIO_IRQ_EDGE_FALL_def)
  have c: "is_timeout (Alarm_irq 1)"
    by (simp add: is_timeout_def)
  from race_exactly_one_terminal [OF a b c] a b c show ?thesis by simp
qed

text \<open>
  C2 (as the code has it). In \<^verbatim>\<open>main/main.c\<close> the handler does not store the end
  timestamp on every falling edge of the echo pin, and it completes a measurement whose
  timeout has fired. A falling edge at time 700 that arrives while no measurement is pending
  (\<^verbatim>\<open>flag_f_trigger\<close> clear, as before the first trigger) leaves \<^verbatim>\<open>t_descida\<close> at 0 and
  changes nothing; a falling edge at time 600000, after the alarm of 500 milliseconds has
  set \<^verbatim>\<open>timer_fired\<close>, clears that flag and sets \<^verbatim>\<open>action_completed\<close>.
\<close>

theorem falling_edge_not_recorded_counterexample:
  "trigger_callback main_ECHO_PIN 0x4 0 700 sensor_state_init = (sensor_state_init, [])
   \<and> t_descida sensor_state_init = 0
   \<and> trigger_callback main_ECHO_PIN 0x4 0 600000
         (sensor_state_init\<lparr>flag_f_trigger := 1, alarm_id := 5, timer_fired := True\<rparr>)
       = (sensor_state_init\<lparr>alarm_id := 5, t_descida := 600000, action_completed := True\<rparr>, [])"
  by (simp add: trigger_callback_def Let_def sensor_state_init_def)

text \<open>
  C2 (amended). In the two state-machine programs, \<^verbatim>\<open>echo_callback\<close> stores the end
  timestamp on a falling edge of the echo pin whatever the state is; it cancels the armed
  alarm and moves to \<^verbatim>\<open>STATE_MEASUREMENT_COMPLETE\<close> exactly when the state is
  \<^verbatim>\<open>STATE_WAITING_FOR_ECHO\<close>, and in every other state it cancels nothing and leaves
  the state as it is. In \<^verbatim>\<open>main/main.c\<close>, \<^verbatim>\<open>trigger_callback\<close> handles a falling edge of
  its echo pin only when the event is the falling edge alone (\<^verbatim>\<open>events == 0x4\<close>) and
  \<^verbatim>\<open>flag_f_trigger\<close> is set: it then stores the end timestamp, clears \<^verbatim>\<open>flag_f_trigger\<close>
  and \<^verbatim>\<open>timer_fired\<close>, sets \<^verbatim>\<open>action_completed\<close> (also when the alarm had fired), and
  cancels the alarm if it had not fired and its handle is not zero. With the flag clear it
  stores nothing and changes nothing, and no other event value touches the end timestamp or
  \<^verbatim>\<open>action_completed\<close>.
\<close>

theorem falling_edge_handlers:
  "(events AND GPIO_IRQ_EDGE_FALL \<noteq> 0
      \<and> echo_callback ECHO_PIN events t_rise t_fall s = (s', acts) \<longrightarrow>
        echo_end_time s' = t_fall
        \<and> (current_state s = STATE_WAITING_FOR_ECHO \<longrightarrow>
             current_state s' = STATE_MEASUREMENT_COMPLETE
             \<and> acts = [Cancel_alarm (measurement_alarm_id s)])
        \<and> (current_state s \<noteq> STATE_WAITING_FOR_ECHO \<longrightarrow>
             current_state s' = current_state s \<and> acts = []))
   \<and> (trigger_callback main_ECHO_PIN 0x4 t_rise t_fall st = (st', acts') \<longrightarrow>
        (flag_f_trigger st \<noteq> 0 \<longrightarrow>
           st' = st\<lparr>t_descida := t_fall, flag_f_trigger := 0, timer_fired := False,
                    action_completed := True\<rparr>
           \<and> acts' = (if \<not> timer_fired st \<and> alarm_id st \<noteq> 0
                       then [Cancel_alarm (alarm_id st)] else []))
        \<and> (flag_f_trigger st = 0 \<longrightarrow> st' = st \<and> acts' = []))
   \<and> (ev \<noteq> 0x4 \<longrightarrow>
        t_descida (fst (trigger_callback gpio ev t_rise t_fall st)) = t_descida st
        \<and> action_completed (fst (trigger_callback gpio ev t_rise t_fall st)) = action_completed st
        \<and> snd (trigger_callback gpio ev t_rise t_fall st) = [])"
proof -
  have a: "events AND GPIO_IRQ_EDGE_FALL \<noteq> 0
      \<and> echo_callback ECHO_PIN events t_rise t_fall s = (s', acts) \<longrightarrow>
        echo_end_time s' = t_fall
        \<and> (current_state s = STATE_WAITING_FOR_ECHO \<longrightarrow>
             current_state s' = STATE_MEASUREMENT_COMPLETE
             \<and> acts = [Cancel_alarm (measurement_alarm_id s)])
        \<and> (current_state s \<noteq> STATE_WAITING_FOR_ECHO \<longrightarrow>
             current_state s' = current_state s \<and> acts = [])"
    using echo_callback_falling_edge [of events t_rise t_fall s s' acts] by blast
  have b: "trigger_callback main_ECHO_PIN 0x4 t_rise t_fall st = (st', acts') \<longrightarrow>
        (flag_f_trigger st \<noteq> 0 \<longrightarrow>
           st' = st\<lparr>t_descida := t_fall, flag_f_trigger := 0, timer_fired := False,
                    action_completed := True\<rparr>
           \<and> acts' = (if \<not> timer_fired st \<and> alarm_id st \<noteq> 0
                       then [Cancel_alarm (alarm_id st)] else []))
        \<and> (flag_f_trigger st = 0 \<longrightarrow> st' = st \<and> acts' = [])"
    by (auto simp: trigger_callback_def Let_def main_ECHO_PIN_def)
  have c: "ev \<noteq> 0x4 \<longrightarrow>
        t_descida (fst (trigger_callback gpio ev t_rise t_fall st)) = t_descida st
        \<and> action_completed (fst (trigger_callback gpio ev t_rise t_fall st)) = action_completed st
        \<and> snd (trigger_callback gpio ev t_rise t_fall st) = []"
    using trigger_callback_other_events [of ev gpio t_rise t_fall st] by blast
  from a b c show ?thesis by (intro conjI)
qed

theorem falling_edge_handlers_witness:
  "(4 :: 32 word) AND GPIO_IRQ_EDGE_FALL \<noteq> 0
   \<and> echo_callback ECHO_PIN 4 0 700 (g_state_init\<lparr>current_state := STATE_WAITING_FOR_ECHO,
        measurement_alarm_id := 5\<rparr>)
       = (g_state_init\<lparr>current_state := STATE_MEASUREMENT_COMPLETE, measurement_alarm_id := 5,
            echo_end_time := 700\<rparr>, [Cancel_alarm 5])
   \<and> echo_callback ECHO_PIN 4 0 700 g_state_init = (g_state_init\<lparr>echo_end_time := 700\<rparr>, [])
   \<and> trigger_callback main_ECHO_PIN 0x4 0 700 (sensor_state_init\<lparr>flag_f_trigger := 1, alarm_id := 5\<rparr>)
       = (sensor_state_init\<lparr>alarm_id := 5, t_descida := 700, action_completed := True\<rparr>,
          [Cancel_alarm 5])
   \<and> trigger_callback main_ECHO_PIN 0x4 0 700
         (sensor_state_init\<lparr>flag_f_trigger := 1, alarm_id := 5, timer_fired := True\<rparr>)
       = (sensor_state_init\<lparr>alarm_id := 5, t_descida := 700, action_completed := True\<rparr>, [])
   \<and> trigger_callback main_ECHO_PIN 0xC 100 700 (sensor_state_init\<lparr>flag_f_trigger := 1\<rparr>)
       = (sensor_state_init\<lparr>flag_f_trigger := 1\<rparr>, [])"
proof -
  have a: "(4 :: 32 word) AND GPIO_IRQ_EDGE_FALL \<noteq> 0"
    by (simp add: GPIO_IRQ_EDGE_FALL_def)
  have t3: "trigger_callback main_ECHO_PIN 0xC 100 700 (sensor_state_init\<lparr>flag_f_trigger := 1\<rparr>)
       = (sensor_state_init\<lparr>flag_f_trigger := 1\<rparr>, [])"
    by (simp add: trigger_callback_def Let_def sensor_state_init_def)
  have e1: "echo_callback ECHO_PIN 4 0 700 (g_state_init\<lparr>current_state := STATE_WAITING_FOR_ECHO,
        measurement_alarm_id := 5\<rparr>)
       = (g_state_init\<lparr>current_state := STATE_MEASUREMENT_COMPLETE, measurement_alarm_id := 5,
            echo_end_time := 700\<rparr>, [Cancel_alarm 5])"
    by (simp add: echo_callback_def Let_def GPIO_IRQ_EDGE_FALL_def GPIO_IRQ_EDGE_RISE_def
        g_state_init_def)
  have e2: "echo_callback ECHO_PIN 4 0 700 g_state_init = (g_state_init\<lparr>echo_end_time := 700\<rparr>, [])"
    by (simp add: echo_callback_def Let_def GPIO_IRQ_EDGE_FALL_def GPIO_IRQ_EDGE_RISE_def
        g_state_init_def)
  have t1: "trigger_callback main_ECHO_PIN 0x4 0 700 (sensor_state_init\<lparr>flag_f_trigger := 1, alarm_id := 5\<rparr>)
       = (sensor_state_init\<lparr>alarm_id := 5, t_descida := 700, action_completed := True\<rparr>,
          [Cancel_alarm 5])"
    by (simp add: trigger_callback_def Let_def sensor_state_init_def)
  have t2: "trigger_callback main_ECHO_PIN 0x4 0 700
         (sensor_state_init\<lparr>flag_f_trigger := 1, alarm_id := 5, timer_fired := True\<rparr>)
       = (sensor_state_init\<lparr>alarm_id := 5, t_descida := 700, action_completed := True\<rparr>, [])"
    by (simp add: trigger_callback_def Let_def sensor_state_init_def)
  from falling_edge_handlers [where events = 4 and s = "g_state_init\<lparr>current_state := STATE_WAITING_FOR_ECHO,
        measurement_alarm_id := 5\<rparr>"] a e1 e2 t1 t2 t3
  show ?thesis by - (intro conjI; assumption)
qed

text \<open>
  C3 (as the code has it). In \<^verbatim>\<open>main/main.c\<close> the alarm callback has no guard: fired
  after the measurement has completed, it still sets \<^verbatim>\<open>timer_fired\<close>.
\<close>

theorem alarm_callback_unguarded_counterexample:
  "alarm_callback 1 (sensor_state_init\<lparr>action_completed := True\<rparr>)
     = (0, sensor_state_init\<lparr>action_completed := True, timer_fired := True\<rparr>)
   \<and> timer_fired (sensor_state_init\<lparr>action_completed := True\<rparr>) = False"
  by (simp add: alarm_callback_def sensor_state_init_def)

text \<open>
  C3 (amended). In the two state-machine programs, when the timeout fires the state becomes
  \<^verbatim>\<open>STATE_MEASUREMENT_ERROR\<close> exactly when it was \<^verbatim>\<open>STATE_WAITING_FOR_ECHO\<close>; in every
  other state, \<^verbatim>\<open>STATE_MEASUREMENT_COMPLETE\<close> and \<^verbatim>\<open>STATE_IDLE\<close> among them, the callback
  changes nothing. It returns 0, so the alarm is not rescheduled. In \<^verbatim>\<open>main/main.c\<close>,
  \<^verbatim>\<open>alarm_callback\<close> sets \<^verbatim>\<open>timer_fired\<close> at every firing and returns 0. A measurement
  that has completed is still reported as it would have been, because the report tests
  \<^verbatim>\<open>action_completed\<close> first; one that has not completed is reported as \<^verbatim>\<open>Falha\<close>.
\<close>

theorem timeout_handlers:
  "(timeout_callback alarm s = (r, s') \<longrightarrow>
        r = 0
        \<and> (current_state s = STATE_WAITING_FOR_ECHO \<longrightarrow>
             s' = s\<lparr>current_state := STATE_MEASUREMENT_ERROR\<rparr>)
        \<and> (current_state s \<noteq> STATE_WAITING_FOR_ECHO \<longrightarrow> s' = s))
   \<and> alarm_callback alarm st = (0, st\<lparr>timer_fired := True\<rparr>)
   \<and> (action_completed st \<longrightarrow>
        report_measurement (snd (alarm_callback alarm st)) = report_measurement st)
   \<and> (\<not> action_completed st \<longrightarrow>
        report_measurement (snd (alarm_callback alarm st)) = Inr Out_falha)"
proof -
  have a: "timeout_callback alarm s = (r, s') \<longrightarrow>
        r = 0
        \<and> (current_state s = STATE_WAITING_FOR_ECHO \<longrightarrow>
             s' = s\<lparr>current_state := STATE_MEASUREMENT_ERROR\<rparr>)
        \<and> (current_state s \<noteq> STATE_WAITING_FOR_ECHO \<longrightarrow> s' = s)"
    using timeout_callback_effect [of alarm s r s'] by blast
  have b: "alarm_callback alarm st = (0, st\<lparr>timer_fired := True\<rparr>)"
    by (rule alarm_callback_always)
  have c: "action_completed st \<longrightarrow>
        report_measurement (snd (alarm_callback alarm st)) = report_measurement st"
    by (simp add: alarm_callback_def report_measurement_def)
  have d: "\<not> action_completed st \<longrightarrow>
        report_measurement (snd (alarm_callback alarm st)) = Inr Out_falha"
    by (simp add: alarm_callback_def report_measurement_def)
  from a b c d show ?thesis by (intro conjI)
qed

theorem timeout_handlers_witness:
  "timeout_callback 1 (g_state_init\<lparr>current_state := STATE_WAITING_FOR_ECHO\<rparr>)
     = (0, g_state_init\<lparr>current_state := STATE_MEASUREMENT_ERROR\<rparr>)
   \<and> timeout_callback 1 (g_state_init\<lparr>current_state := STATE_MEASUREMENT_COMPLETE\<rparr>)
     = (0, g_state_init\<lparr>current_state := STATE_MEASUREMENT_COMPLETE\<rparr>)
   \<and> report_measurement (snd (alarm_callback 1 (sensor_state_init\<lparr>flag_f_trigger := 1\<rparr>)))
     = Inr Out_falha
   \<and> report_measurement (snd (alarm_callback 1
        (sensor_state_init\<lparr>action_completed := True, t_subida := 100, t_descida := 700\<rparr>)))
     = Inr (Out_distance (10789847 / 1048576))"
proof -
  have r1: "timeout_callback 1 (g_state_init\<lparr>current_state := STATE_WAITING_FOR_ECHO\<rparr>)
     = (0, g_state_init\<lparr>current_state := STATE_MEASUREMENT_ERROR\<rparr>)"
    by (simp add: timeout_callback_def)
  have r2: "timeout_callback 1 (g_state_init\<lparr>current_state := STATE_MEASUREMENT_COMPLETE\<rparr>)
     = (0, g_state_init\<lparr>current_state := STATE_MEASUREMENT_COMPLETE\<rparr>)"
    by (simp add: timeout_callback_def)
  have n: "\<not> action_completed (sensor_state_init\<lparr>flag_f_trigger := 1\<rparr>)"
    by (simp add: sensor_state_init_def)
  have y: "action_completed
      (sensor_state_init\<lparr>action_completed := True, t_subida := 100, t_descida := 700\<rparr>)"
    by simp
  have v: "report_measurement
      (sensor_state_init\<lparr>action_completed := True, t_subida := 100, t_descida := 700\<rparr>)
     = Inr (Out_distance (10789847 / 1048576))"
    by (simp add: report_measurement_def d600 distance_cm_600)
  from timeout_handlers [where st = "sensor_state_init\<lparr>flag_f_trigger := 1\<rparr>" and alarm = 1] n
  have f: "report_measurement (snd (alarm_callback 1 (sensor_state_init\<lparr>flag_f_trigger := 1\<rparr>)))
     = Inr Out_falha"
    by blast
  from timeout_handlers [where st = "sensor_state_init\<lparr>action_completed := True,
      t_subida := 100, t_descida := 700\<rparr>" and alarm = 1] y
  have g0: "report_measurement (snd (alarm_callback 1
        (sensor_state_init\<lparr>action_completed := True, t_subida := 100, t_descida := 700\<rparr>)))
     = report_measurement
        (sensor_state_init\<lparr>action_completed := True, t_subida := 100, t_descida := 700\<rparr>)"
    by blast
  have g: "report_measurement (snd (alarm_callback 1
        (sensor_state_init\<lparr>action_completed := True, t_subida := 100, t_descida := 700\<rparr>)))
     = Inr (Out_distance (10789847 / 1048576))"
    unfolding g0 by (rule v)
  from r1 r2 f g show ?thesis by (intro conjI)
qed

section \<open>Properties of the foreground loop\<close>

text \<open>
  C4. Single flight: an iteration of the foreground loop that starts in a state other than
  \<^verbatim>\<open>STATE_IDLE\<close> drives no pin and arms no alarm, whatever the run flag is; an iteration
  that does send a pulse or arm an alarm started in \<^verbatim>\<open>STATE_IDLE\<close> with the run flag set
  (the flag as the iteration's own command handling left it).
\<close>

theorem single_flight:
  assumes "main_iter inp s = Inr (s', acts)"
  shows "(current_state s \<noteq> STATE_IDLE \<longrightarrow> filter is_trigger_or_alarm acts = [])
       \<and> (filter is_trigger_or_alarm acts \<noteq> [] \<longrightarrow> current_state s = STATE_IDLE \<and> system_running s')"
  using assms
proof (cases rule: main_iter_cases)
  case skipped
  from main_console_frame [OF this] show ?thesis by simp
next
  case (full s1 a1 s2 a2 a3)
  note c = main_console_frame [OF full(1)]
  note t = main_trigger_actions [OF full(2)]
  note r = main_report_actions [OF full(3)]
  show ?thesis
  proof (cases "system_running s1 \<and> current_state s1 = STATE_IDLE")
    case True
    with t have "system_running s2" by auto
    with r c True show ?thesis by (simp add: full(4) is_trigger_or_alarm_def)
  next
    case False
    with t have "a2 = []" by simp
    with c r show ?thesis by (simp add: full(4) is_trigger_or_alarm_def)
  qed
qed

theorem single_flight_witness:
  "main_iter no_char (g_state_init\<lparr>current_state := STATE_WAITING_FOR_ECHO, system_running := True\<rparr>)
     = Inr (g_state_init\<lparr>current_state := STATE_WAITING_FOR_ECHO, system_running := True\<rparr>,
            [Sleep_ms 10])
   \<and> filter is_trigger_or_alarm [Sleep_ms 10] = []
   \<and> main_iter no_char (g_state_init\<lparr>system_running := True\<rparr>)
     = Inr (g_state_init\<lparr>system_running := True, current_state := STATE_WAITING_FOR_ECHO,
              measurement_alarm_id := 1\<rparr>,
            [Gpio_put 28 True, Sleep_us 10, Gpio_put 28 False, Add_alarm_in_us 30000 True,
             Sleep_ms 10])"
proof -
  have r1: "main_iter no_char (g_state_init\<lparr>current_state := STATE_WAITING_FOR_ECHO, system_running := True\<rparr>)
     = Inr (g_state_init\<lparr>current_state := STATE_WAITING_FOR_ECHO, system_running := True\<rparr>,
            [Sleep_ms 10])"
    by (simp add: main_iter_def main_console_def main_trigger_def main_report_def no_char_def)
  have r2: "main_iter no_char (g_state_init\<lparr>system_running := True\<rparr>)
     = Inr (g_state_init\<lparr>system_running := True, current_state := STATE_WAITING_FOR_ECHO,
              measurement_alarm_id := 1\<rparr>,
            [Gpio_put 28 True, Sleep_us 10, Gpio_put 28 False, Add_alarm_in_us 30000 True,
             Sleep_ms 10])"
    by (simp add: main_iter_def main_console_def main_trigger_def main_report_def no_char_def
        g_state_init_def send_trigger_pulse_def TRIGGER_PIN_def MEASUREMENT_TIMEOUT_US_def)
  from single_flight [OF r1] single_flight [OF r2] r1 r2 show ?thesis by simp
qed

text \<open>
  C5 (as the code has it). \<^verbatim>\<open>main/main.c\<close> arms its alarm for 500 milliseconds, not 30,
  and drives pin 15.
\<close>

theorem alarm_budget_500ms_counterexample:
  "begin_measurement 1 sensor_state_init
     = (sensor_state_init\<lparr>flag_f_trigger := 1, alarm_id := 1\<rparr>,
        [Gpio_put 15 True, Sleep_us 10, Gpio_put 15 False, Add_alarm_in_ms 500 False])"
  by (simp add: begin_measurement_def sensor_state_init_def main_TRIG_PIN_def)

text \<open>
  C5 (amended). In the state machine, every step that takes the state from \<^verbatim>\<open>STATE_IDLE\<close>
  to \<^verbatim>\<open>STATE_WAITING_FOR_ECHO\<close> is a foreground iteration, and what it does to the
  hardware is, in this order: trigger pin high, 10 microseconds of sleep, trigger pin low,
  alarm armed for 30000 microseconds. The handle of that alarm is stored. In
  \<^verbatim>\<open>main/main.c\<close> the block that starts a measurement sends the same pulse of 10
  microseconds on pin 15 and then arms the alarm for 500 milliseconds; it runs exactly when
  the run flag is set and a second has passed since the last measurement.
\<close>

theorem trigger_pulse_and_budget:
  "(step e s = Inr (s', acts) \<and> current_state s = STATE_IDLE
      \<and> current_state s' = STATE_WAITING_FOR_ECHO \<longrightarrow>
        (\<exists>inp pre. e = Iter inp
           \<and> acts = pre @ [Gpio_put TRIGGER_PIN True, Sleep_us 10, Gpio_put TRIGGER_PIN False,
                           Add_alarm_in_us 30000 True, Sleep_ms 10]
           \<and> filter is_trigger_or_alarm pre = []
           \<and> measurement_alarm_id s' = alarm_result inp))
   \<and> begin_measurement new_alarm st
       = (st\<lparr>flag_f_trigger := 1, timer_fired := False, action_completed := False,
              alarm_id := new_alarm\<rparr>,
          [Gpio_put 15 True, Sleep_us 10, Gpio_put 15 False, Add_alarm_in_ms 500 False])
   \<and> snd (try_begin_measurement active elapsed_us new_alarm st)
       = (if active \<and> 1000000 \<le> elapsed_us
          then [Gpio_put 15 True, Sleep_us 10, Gpio_put 15 False, Add_alarm_in_ms 500 False]
          else [])"
proof -
  have a: "step e s = Inr (s', acts) \<and> current_state s = STATE_IDLE
      \<and> current_state s' = STATE_WAITING_FOR_ECHO \<longrightarrow>
        (\<exists>inp pre. e = Iter inp
           \<and> acts = pre @ [Gpio_put TRIGGER_PIN True, Sleep_us 10, Gpio_put TRIGGER_PIN False,
                           Add_alarm_in_us 30000 True, Sleep_ms 10]
           \<and> filter is_trigger_or_alarm pre = []
           \<and> measurement_alarm_id s' = alarm_result inp)"
    using main_trigger_pulse [of e s s' acts] by blast
  have b: "begin_measurement new_alarm st
       = (st\<lparr>flag_f_trigger := 1, timer_fired := False, action_completed := False,
              alarm_id := new_alarm\<rparr>,
          [Gpio_put 15 True, Sleep_us 10, Gpio_put 15 False, Add_alarm_in_ms 500 False])"
    by (simp add: begin_measurement_def main_TRIG_PIN_def)
  have c: "snd (try_begin_measurement active elapsed_us new_alarm st)
       = (if active \<and> 1000000 \<le> elapsed_us
          then [Gpio_put 15 True, Sleep_us 10, Gpio_put 15 False, Add_alarm_in_ms 500 False]
          else [])"
    by (simp add: try_begin_measurement_def measurement_due_def b)
  from a b c show ?thesis by (intro conjI)
qed

theorem trigger_pulse_and_budget_witness:
  "step (Iter no_char) (g_state_init\<lparr>system_running := True\<rparr>)
     = Inr (g_state_init\<lparr>system_running := True, current_state := STATE_WAITING_FOR_ECHO,
              measurement_alarm_id := 1\<rparr>,
            [] @ [Gpio_put TRIGGER_PIN True, Sleep_us 10, Gpio_put TRIGGER_PIN False,
                  Add_alarm_in_us 30000 True, Sleep_ms 10])
   \<and> TRIGGER_PIN = 28"
proof -
  obtain s' acts where r: "step (Iter no_char) (g_state_init\<lparr>system_running := True\<rparr>) = Inr (s', acts)"
    "s' = g_state_init\<lparr>system_running := True, current_state := STATE_WAITING_FOR_ECHO,
              measurement_alarm_id := 1\<rparr>"
    by (simp add: main_iter_def main_console_def main_trigger_def main_report_def no_char_def
        g_state_init_def)
  have a: "current_state (g_state_init\<lparr>system_running := True\<rparr>) = STATE_IDLE"
    by (simp add: g_state_init_def)
  have b: "current_state s' = STATE_WAITING_FOR_ECHO" by (simp add: r(2))
  from trigger_pulse_and_budget [of "Iter no_char" "g_state_init\<lparr>system_running := True\<rparr>" s' acts]
    r(1) a b
  obtain pre
    where "acts = pre @ [Gpio_put TRIGGER_PIN True, Sleep_us 10, Gpio_put TRIGGER_PIN False,
                       Add_alarm_in_us 30000 True, Sleep_ms 10]" by blast
  moreover from r(1) have "length acts = 5"
    by (auto simp: main_iter_def main_console_def main_trigger_def main_report_def no_char_def
        g_state_init_def send_trigger_pulse_def)
  ultimately have "acts = [] @ [Gpio_put TRIGGER_PIN True, Sleep_us 10, Gpio_put TRIGGER_PIN False,
                       Add_alarm_in_us 30000 True, Sleep_ms 10]" by simp
  with r show ?thesis by (simp add: TRIGGER_PIN_def)
qed

text \<open>
  C7. An iteration that reports a completed measurement prints the value of
  \<^verbatim>\<open>(duration_us * 0.0343f) / 2.0f\<close>, where \<^verbatim>\<open>duration_us\<close> is the difference of the end and
  start timestamps read as a signed 64-bit number, so that a counter that wrapped between
  the two edges still gives the elapsed time. The value is computed in single precision for
  every such duration and lies within the relative error \<open>2 powi (- 21)\<close> of
  \<open>duration * 0.0343 / 2\<close>; it has the sign of the duration, and nothing clamps or rejects
  it. For a rising edge at 100 and a falling edge at 700 the value is within \<open>1 / 10 ^ 6\<close> of
  10.29.
\<close>

theorem reported_distance:
  assumes "main_iter inp s = Inr (s', acts)"
    and "current_state s = STATE_MEASUREMENT_COMPLETE"
    and "reports acts \<noteq> []"
  shows "\<exists>time_str v.
           reports acts = [Msg_distance time_str v]
         \<and> distance_cm (sint (echo_end_time s - echo_start_time s)) = Some v
         \<and> \<bar>v - of_int (sint (echo_end_time s - echo_start_time s)) * (343 / 20000)\<bar>
             \<le> (1 / 2 ^ 21) * \<bar>of_int (sint (echo_end_time s - echo_start_time s)) * (343 / 20000)\<bar>
         \<and> (sint (echo_end_time s - echo_start_time s) < 0 \<longrightarrow> v < 0)
         \<and> (0 < sint (echo_end_time s - echo_start_time s) \<longrightarrow> 0 < v)"
  using assms(1)
proof (cases rule: main_iter_cases)
  case skipped
  from main_console_frame [OF this] assms(3) show ?thesis by simp
next
  case (full s1 a1 s2 a2 a3)
  define d where "d = sint (echo_end_time s - echo_start_time s)"
  note c = main_console_frame [OF full(1)]
  note t = main_trigger_actions [OF full(2)]
  from c assms(2) t have s2: "s2 = s1" "a2 = []" by simp_all
  with c assms(2) have st: "current_state s2 = STATE_MEASUREMENT_COMPLETE"
    and ts: "echo_start_time s2 = echo_start_time s" "echo_end_time s2 = echo_end_time s"
    by simp_all
  from main_report_cases [OF full(3)] st obtain time_str v
    where r: "reports a3 = [Msg_distance time_str v]"
      "distance_cm (absolute_time_diff_us (echo_start_time s2) (echo_end_time s2)) = Some v"
    by auto
  have dv: "distance_cm d = Some v"
    using r(2) by (simp add: ts absolute_time_diff_us_def d_def)
  have "\<bar>d\<bar> \<le> 2 ^ 63"
    using absolute_time_diff_us_range [of "echo_start_time s" "echo_end_time s"]
    by (simp add: absolute_time_diff_us_def d_def)
  from distance_cm_bound [OF this] dv
  have b: "\<bar>v - of_int d * (343 / 20000)\<bar> \<le> (1 / 2 ^ 21) * \<bar>of_int d * (343 / 20000)\<bar>"
    by simp
  from rel_sign [OF b] have sg: "(d < 0 \<longrightarrow> v < 0) \<and> (0 < d \<longrightarrow> 0 < v)"
    by (simp add: mult_less_0_iff zero_less_mult_iff)
  have "reports acts = [Msg_distance time_str v]"
    using c s2 r(1) by (simp add: full(4))
  with dv b sg show ?thesis unfolding d_def by blast
qed

theorem reported_distance_witness:
  "main_iter no_char (g_state_init\<lparr>current_state := STATE_MEASUREMENT_COMPLETE,
       echo_start_time := 100, echo_end_time := 700\<rparr>)
     = Inr (g_state_init\<lparr>echo_start_time := 100, echo_end_time := 700\<rparr>,
            [Printf (Msg_distance ''10:00:00'' (10789847 / 1048576)), Sleep_ms 10])
   \<and> \<bar>10789847 / 1048576 - 1029 / 100\<bar> < (1 / 10 ^ 6 :: rat)
   \<and> main_iter no_char (g_state_init\<lparr>current_state := STATE_MEASUREMENT_COMPLETE,
       echo_start_time := - 100, echo_end_time := 500\<rparr>)
     = Inr (g_state_init\<lparr>echo_start_time := - 100, echo_end_time := 500\<rparr>,
            [Printf (Msg_distance ''10:00:00'' (10789847 / 1048576)), Sleep_ms 10])
   \<and> main_iter no_char (g_state_init\<lparr>current_state := STATE_MEASUREMENT_COMPLETE,
       echo_start_time := 700, echo_end_time := 100\<rparr>)
     = Inr (g_state_init\<lparr>echo_start_time := 700, echo_end_time := 100\<rparr>,
            [Printf (Msg_distance ''10:00:00'' (- (10789847 / 1048576))), Sleep_ms 10])"
proof -
  have d1: "absolute_time_diff_us (- 100) 500 = 600"
    by (simp add: absolute_time_diff_us_def)
  have d2: "absolute_time_diff_us 700 100 = - 600"
    by (simp add: absolute_time_diff_us_def)
  have r1: "main_iter no_char (g_state_init\<lparr>current_state := STATE_MEASUREMENT_COMPLETE,
       echo_start_time := 100, echo_end_time := 700\<rparr>)
     = Inr (g_state_init\<lparr>echo_start_time := 100, echo_end_time := 700\<rparr>,
            [Printf (Msg_distance ''10:00:00'' (10789847 / 1048576)), Sleep_ms 10])"
    by (simp add: iter_defs g_state_init_def sprintf_time_init d600 distance_cm_600)
  have r2: "main_iter no_char (g_state_init\<lparr>current_state := STATE_MEASUREMENT_COMPLETE,
       echo_start_time := - 100, echo_end_time := 500\<rparr>)
     = Inr (g_state_init\<lparr>echo_start_time := - 100, echo_end_time := 500\<rparr>,
            [Printf (Msg_distance ''10:00:00'' (10789847 / 1048576)), Sleep_ms 10])"
    by (simp add: iter_defs g_state_init_def sprintf_time_init d1 distance_cm_600)
  have r3: "main_iter no_char (g_state_init\<lparr>current_state := STATE_MEASUREMENT_COMPLETE,
       echo_start_time := 700, echo_end_time := 100\<rparr>)
     = Inr (g_state_init\<lparr>echo_start_time := 700, echo_end_time := 100\<rparr>,
            [Printf (Msg_distance ''10:00:00'' (- (10789847 / 1048576))), Sleep_ms 10])"
    by (simp add: iter_defs g_state_init_def sprintf_time_init d2 distance_cm_neg600)
  have st: "current_state (g_state_init\<lparr>current_state := STATE_MEASUREMENT_COMPLETE,
       echo_start_time := 100, echo_end_time := 700\<rparr>) = STATE_MEASUREMENT_COMPLETE"
    by simp
  have ne: "reports [Printf (Msg_distance ''10:00:00'' (10789847 / 1048576)), Sleep_ms 10] \<noteq> []"
    by (simp add: is_report_def)
  from reported_distance [OF r1 st ne]
  have "\<bar>10789847 / 1048576 - 600 * (343 / 20000)\<bar> \<le> (1 / 2 ^ 21) * \<bar>600 * (343 / 20000 :: rat)\<bar>"
    by (simp add: is_report_def)
  then have near: "\<bar>10789847 / 1048576 - 1029 / 100\<bar> < (1 / 10 ^ 6 :: rat)"
    by simp
  from r1 near r2 r3 show ?thesis by (intro conjI)
qed

text \<open>
  C8 (as the code has it). \<^verbatim>\<open>main/main.c\<close> has a third report, for a measurement that has
  neither completed nor timed out when the wait loop gives up. That is the state in which
  the block that starts a measurement leaves the flags; the report finds it when no edge
  arrives and \<^verbatim>\<open>add_alarm_in_ms\<close> could not arm the alarm and returned \<^verbatim>\<open>-1\<close>.
\<close>

theorem third_report_line_counterexample:
  "report_measurement (fst (begin_measurement (- 1) sensor_state_init)) = Inr Out_incomplete"
  by (simp add: report_measurement_def begin_measurement_def sensor_state_init_def)

text \<open>
  C8 (amended). In the state machine, an iteration that finds the state terminal either ends
  in \<^verbatim>\<open>continue\<close> before it looks at the state (an empty line was entered; nothing is
  printed and the state is kept for the next iteration), or prints exactly one report and
  resets the state to \<^verbatim>\<open>STATE_IDLE\<close>. The report is \<^verbatim>\<open>"\n%s - %.0f cm\n"\<close> for
  \<^verbatim>\<open>STATE_MEASUREMENT_COMPLETE\<close> and \<^verbatim>\<open>"\n%s - Falha\n"\<close> for
  \<^verbatim>\<open>STATE_MEASUREMENT_ERROR\<close>, with the time of day as \<^verbatim>\<open>HH:MM:SS\<close> when the clock gives
  a time of day; there is no third report. An iteration that finds any other state prints
  no report. From a well-formed command buffer the iteration always returns: nothing in it
  aborts. In \<^verbatim>\<open>main/main.c\<close> the report after the wait loop is, behind the time of day
  and \<^verbatim>\<open>" - "\<close>, exactly one of three lines: the distance when \<^verbatim>\<open>action_completed\<close> is
  set, \<^verbatim>\<open>Falha\<close> when only \<^verbatim>\<open>timer_fired\<close> is set, and the line for a measurement that
  was not concluded when neither is. It has no state to reset: the two flags are cleared
  when the next measurement is started.
\<close>

theorem report_lines:
  "(buffer_ok s \<longrightarrow>
      (\<exists>s' acts. main_iter inp s = Inr (s', acts) \<and>
         (if current_state s = STATE_MEASUREMENT_COMPLETE \<or> current_state s = STATE_MEASUREMENT_ERROR
          then (main_console inp s = Inr (True, s', acts) \<and> s' = s \<and> reports acts = [])
             \<or> (current_state s' = STATE_IDLE
                \<and> (\<exists>time_str. sprintf_time (rtc_now inp) = Inr time_str
                     \<and> (valid_time (rtc_now inp) \<longrightarrow> is_hh_mm_ss time_str)
                     \<and> (if current_state s = STATE_MEASUREMENT_COMPLETE
                         then \<exists>v. reports acts = [Msg_distance time_str v]
                                \<and> map (render_report fmt) (reports acts)
                                    = [[CHR 0x0A] @ time_str @ '' - '' @ fmt v @ '' cm'' @ [CHR 0x0A]]
                         else reports acts = [Msg_failure time_str]
                                \<and> map (render_report fmt) (reports acts)
                                    = [[CHR 0x0A] @ time_str @ '' - Falha'' @ [CHR 0x0A]])))
          else reports acts = [])))
   \<and> (\<exists>out. report_measurement st = Inr out
         \<and> (action_completed st \<longrightarrow> (\<exists>v. out = Out_distance v))
         \<and> (\<not> action_completed st \<and> timer_fired st \<longrightarrow> out = Out_falha)
         \<and> (\<not> action_completed st \<and> \<not> timer_fired st \<longrightarrow> out = Out_incomplete))
   \<and> (valid_time now \<longrightarrow> (\<exists>str. print_datetime now = str @ '' - '' \<and> is_hh_mm_ss str))
   \<and> \<not> timer_fired (fst (begin_measurement new_alarm st))
   \<and> \<not> action_completed (fst (begin_measurement new_alarm st))"
proof -
  have a: "buffer_ok s \<longrightarrow>
      (\<exists>s' acts. main_iter inp s = Inr (s', acts) \<and>
         (if current_state s = STATE_MEASUREMENT_COMPLETE \<or> current_state s = STATE_MEASUREMENT_ERROR
          then (main_console inp s = Inr (True, s', acts) \<and> s' = s \<and> reports acts = [])
             \<or> (current_state s' = STATE_IDLE
                \<and> (\<exists>time_str. sprintf_time (rtc_now inp) = Inr time_str
                     \<and> (valid_time (rtc_now inp) \<longrightarrow> is_hh_mm_ss time_str)
                     \<and> (if current_state s = STATE_MEASUREMENT_COMPLETE
                         then \<exists>v. reports acts = [Msg_distance time_str v]
                                \<and> map (render_report fmt) (reports acts)
                                    = [[CHR 0x0A] @ time_str @ '' - '' @ fmt v @ '' cm'' @ [CHR 0x0A]]
                         else reports acts = [Msg_failure time_str]
                                \<and> map (render_report fmt) (reports acts)
                                    = [[CHR 0x0A] @ time_str @ '' - Falha'' @ [CHR 0x0A]])))
          else reports acts = []))"
    using main_iter_report [of s inp fmt] by (rule impI)
  have b: "\<exists>out. report_measurement st = Inr out
         \<and> (action_completed st \<longrightarrow> (\<exists>v. out = Out_distance v))
         \<and> (\<not> action_completed st \<and> timer_fired st \<longrightarrow> out = Out_falha)
         \<and> (\<not> action_completed st \<and> \<not> timer_fired st \<longrightarrow> out = Out_incomplete)"
    using distance_cm_total [of "t_subida st" "t_descida st"]
    by (auto simp: report_measurement_def)
  have c: "valid_time now \<longrightarrow> (\<exists>str. print_datetime now = str @ '' - '' \<and> is_hh_mm_ss str)"
    using print_datetime_valid [of now] by blast
  have d: "\<not> timer_fired (fst (begin_measurement new_alarm st))"
    "\<not> action_completed (fst (begin_measurement new_alarm st))"
    by (simp_all add: begin_measurement_def)
  from a b c d show ?thesis by (intro conjI)
qed

theorem report_lines_witness:
  "buffer_ok (g_state_init\<lparr>current_state := STATE_MEASUREMENT_ERROR\<rparr>)
   \<and> main_iter no_char (g_state_init\<lparr>current_state := STATE_MEASUREMENT_ERROR\<rparr>)
       = Inr (g_state_init, [Printf (Msg_failure ''10:00:00''), Sleep_ms 10])
   \<and> main_iter no_char (g_state_init\<lparr>current_state := STATE_MEASUREMENT_COMPLETE,
         echo_start_time := 100, echo_end_time := 700\<rparr>)
       = Inr (g_state_init\<lparr>echo_start_time := 100, echo_end_time := 700\<rparr>,
              [Printf (Msg_distance ''10:00:00'' (10789847 / 1048576)), Sleep_ms 10])
   \<and> is_hh_mm_ss ''10:00:00''
   \<and> valid_time t_init
   \<and> print_datetime t_init = ''10:00:00'' @ '' - ''
   \<and> report_measurement (sensor_state_init\<lparr>timer_fired := True\<rparr>) = Inr Out_falha"
proof -
  have ok1: "buffer_ok (g_state_init\<lparr>current_state := STATE_MEASUREMENT_ERROR\<rparr>)"
    by (simp add: buffer_ok_init)
  have d: "absolute_time_diff_us 100 700 = 600"
    by (simp add: absolute_time_diff_us_def)
  have r1: "main_iter no_char (g_state_init\<lparr>current_state := STATE_MEASUREMENT_ERROR\<rparr>)
       = Inr (g_state_init, [Printf (Msg_failure ''10:00:00''), Sleep_ms 10])"
    by (simp add: main_iter_def main_console_def main_trigger_def main_report_def no_char_def
        sprintf_time_init g_state_init_def)
  have r2: "main_iter no_char (g_state_init\<lparr>current_state := STATE_MEASUREMENT_COMPLETE,
         echo_start_time := 100, echo_end_time := 700\<rparr>)
       = Inr (g_state_init\<lparr>echo_start_time := 100, echo_end_time := 700\<rparr>,
              [Printf (Msg_distance ''10:00:00'' (10789847 / 1048576)), Sleep_ms 10])"
    by (simp add: main_iter_def main_console_def main_trigger_def main_report_def no_char_def
        sprintf_time_init d distance_cm_600 g_state_init_def)
  have hh: "is_hh_mm_ss ''10:00:00''"
    by (simp add: is_hh_mm_ss_def is_digit_def)
  have p: "print_datetime t_init = ''10:00:00'' @ '' - ''"
    using sprintf_time_init
    by (auto simp: sprintf_time_def print_datetime_def Let_def split: if_splits)
  have f: "report_measurement (sensor_state_init\<lparr>timer_fired := True\<rparr>) = Inr Out_falha"
    by (simp add: report_measurement_def sensor_state_init_def)
  from report_lines [where s = "g_state_init\<lparr>current_state := STATE_MEASUREMENT_ERROR\<rparr>"
      and inp = no_char and now = t_init] ok1 r1 r2 hh valid_time_init p f
  show ?thesis by - (intro conjI; assumption)
qed

text \<open>
  C6 (as the code has it). A new cycle does not clear the timestamps of the previous one:
  no statement of the foreground loop writes \<^verbatim>\<open>echo_start_time\<close> or
  \<^verbatim>\<open>echo_end_time\<close>. In the run below the first cycle sees a rising edge at 100 and a
  falling edge at 700 and is reported; the second cycle is started a second later with both
  values still in place, sees only a falling edge at 1030000, and its report is computed
  from the start timestamp 100 of the first cycle.
\<close>

theorem timestamps_not_cleared_counterexample:
  "run [Iter no_char, Irq (Echo_irq 27 8 100 0), Irq (Echo_irq 27 4 0 700), Iter no_char,
        Iter no_char]
       (g_state_init\<lparr>system_running := True\<rparr>)
     = Inr (g_state_init\<lparr>system_running := True, current_state := STATE_WAITING_FOR_ECHO,
              measurement_alarm_id := 1, echo_start_time := 100, echo_end_time := 700\<rparr>,
            [Gpio_put 28 True, Sleep_us 10, Gpio_put 28 False, Add_alarm_in_us 30000 True,
             Sleep_ms 10, Cancel_alarm 1,
             Printf (Msg_distance ''10:00:00'' (10789847 / 1048576)), Sleep_ms 1000, Sleep_ms 10,
             Gpio_put 28 True, Sleep_us 10, Gpio_put 28 False, Add_alarm_in_us 30000 True,
             Sleep_ms 10])
   \<and> run [Iter no_char, Irq (Echo_irq 27 8 100 0), Irq (Echo_irq 27 4 0 700), Iter no_char,
          Iter no_char, Irq (Echo_irq 27 4 0 1030000), Iter no_char]
         (g_state_init\<lparr>system_running := True\<rparr>)
     = Inr (g_state_init\<lparr>system_running := True, current_state := STATE_IDLE,
              measurement_alarm_id := 1, echo_start_time := 100, echo_end_time := 1030000\<rparr>,
            [Gpio_put 28 True, Sleep_us 10, Gpio_put 28 False, Add_alarm_in_us 30000 True,
             Sleep_ms 10, Cancel_alarm 1,
             Printf (Msg_distance ''10:00:00'' (10789847 / 1048576)), Sleep_ms 1000, Sleep_ms 10,
             Gpio_put 28 True, Sleep_us 10, Gpio_put 28 False, Add_alarm_in_us 30000 True,
             Sleep_ms 10, Cancel_alarm 1,
             Printf (Msg_distance ''10:00:00'' (4521673 / 256)), Sleep_ms 1000, Sleep_ms 10])"
  by (simp add: iter_defs irq_defs g_state_init_def sprintf_time_init d600 d1029900
      distance_cm_600 distance_cm_1029900)

text \<open>
  C6 (amended). Starting a cycle does not clear the two timestamps. They are written by
  edges on the echo pin and by nothing else: after any run of the program they hold the
  times of the latest rising and of the latest falling edge of that run, or what they held
  before it if there was none. A run that starts outside \<^verbatim>\<open>STATE_MEASUREMENT_COMPLETE\<close>
  and ends in it holds a falling edge, and the end timestamp is the time of the latest of
  its falling edges: the one that completed the measurement, or one that arrived after it
  and before the report. The interrupt that completes a measurement stores the time of its
  falling edge; the start timestamp is the time of the rising edge the same interrupt
  carried, if any, and is otherwise left as the latest earlier rising edge set it, in this
  cycle or a previous one. The report of a completed measurement is computed from the two
  timestamps as the reporting iteration finds them. The block of \<^verbatim>\<open>main/main.c\<close> that
  starts a measurement leaves its two timestamps as they are, too.
\<close>

theorem timestamps_latest_edges:
  "(run es s = Inr (s', acts) \<longrightarrow>
      (echo_start_time s', echo_end_time s') = fold stamp es (echo_start_time s, echo_end_time s)
      \<and> echo_start_time s' = (if rises es = [] then echo_start_time s else last (rises es))
      \<and> echo_end_time s' = (if falls es = [] then echo_end_time s else last (falls es))
      \<and> (current_state s \<noteq> STATE_MEASUREMENT_COMPLETE
           \<and> current_state s' = STATE_MEASUREMENT_COMPLETE \<longrightarrow>
             falls es \<noteq> [] \<and> echo_end_time s' = last (falls es)))
   \<and> (current_state s = STATE_WAITING_FOR_ECHO
        \<and> current_state (irq_step e s) = STATE_MEASUREMENT_COMPLETE \<longrightarrow>
      (\<exists>gpio events t_rise t_fall. e = Echo_irq gpio events t_rise t_fall
         \<and> echo_end_time (irq_step e s) = t_fall
         \<and> echo_start_time (irq_step e s)
             = (if events AND GPIO_IRQ_EDGE_RISE \<noteq> 0 then t_rise else echo_start_time s)))
   \<and> (main_iter inp sc = Inr (sd, acts') \<and> current_state sc = STATE_MEASUREMENT_COMPLETE
        \<and> reports acts' \<noteq> [] \<longrightarrow>
      (\<exists>time_str v. reports acts' = [Msg_distance time_str v]
         \<and> distance_cm (absolute_time_diff_us (echo_start_time sc) (echo_end_time sc)) = Some v))
   \<and> t_subida (fst (begin_measurement new_alarm st)) = t_subida st
   \<and> t_descida (fst (begin_measurement new_alarm st)) = t_descida st"
proof -
  have a: "run es s = Inr (s', acts) \<longrightarrow>
      (echo_start_time s', echo_end_time s') = fold stamp es (echo_start_time s, echo_end_time s)
      \<and> echo_start_time s' = (if rises es = [] then echo_start_time s else last (rises es))
      \<and> echo_end_time s' = (if falls es = [] then echo_end_time s else last (falls es))
      \<and> (current_state s \<noteq> STATE_MEASUREMENT_COMPLETE
           \<and> current_state s' = STATE_MEASUREMENT_COMPLETE \<longrightarrow>
             falls es \<noteq> [] \<and> echo_end_time s' = last (falls es))"
  proof (rule impI)
    assume r: "run es s = Inr (s', acts)"
    note ts = run_timestamps [OF r]
    have l: "echo_start_time s' = (if rises es = [] then echo_start_time s else last (rises es))"
      "echo_end_time s' = (if falls es = [] then echo_end_time s else last (falls es))"
      using ts fold_stamp_latest [of es "echo_start_time s" "echo_end_time s"] by simp_all
    have f: "falls es \<noteq> []"
      if "current_state s \<noteq> STATE_MEASUREMENT_COMPLETE"
        "current_state s' = STATE_MEASUREMENT_COMPLETE"
      using run_complete_needs_fall [OF r that] .
    from ts l f show "(echo_start_time s', echo_end_time s')
          = fold stamp es (echo_start_time s, echo_end_time s)
      \<and> echo_start_time s' = (if rises es = [] then echo_start_time s else last (rises es))
      \<and> echo_end_time s' = (if falls es = [] then echo_end_time s else last (falls es))
      \<and> (current_state s \<noteq> STATE_MEASUREMENT_COMPLETE
           \<and> current_state s' = STATE_MEASUREMENT_COMPLETE \<longrightarrow>
             falls es \<noteq> [] \<and> echo_end_time s' = last (falls es))"
      by simp
  qed
  have b: "current_state s = STATE_WAITING_FOR_ECHO
        \<and> current_state (irq_step e s) = STATE_MEASUREMENT_COMPLETE \<longrightarrow>
      (\<exists>gpio events t_rise t_fall. e = Echo_irq gpio events t_rise t_fall
         \<and> echo_end_time (irq_step e s) = t_fall
         \<and> echo_start_time (irq_step e s)
             = (if events AND GPIO_IRQ_EDGE_RISE \<noteq> 0 then t_rise else echo_start_time s))"
    by (cases e) (auto simp: echo_callback_def timeout_callback_def Let_def split: if_splits)
  have c: "main_iter inp sc = Inr (sd, acts') \<and> current_state sc = STATE_MEASUREMENT_COMPLETE
        \<and> reports acts' \<noteq> [] \<longrightarrow>
      (\<exists>time_str v. reports acts' = [Msg_distance time_str v]
         \<and> distance_cm (absolute_time_diff_us (echo_start_time sc) (echo_end_time sc)) = Some v)"
  proof (intro impI, elim conjE)
    assume it: "main_iter inp sc = Inr (sd, acts')"
      and st: "current_state sc = STATE_MEASUREMENT_COMPLETE"
      and ne: "reports acts' \<noteq> []"
    from it show "\<exists>time_str v. reports acts' = [Msg_distance time_str v]
         \<and> distance_cm (absolute_time_diff_us (echo_start_time sc) (echo_end_time sc)) = Some v"
    proof (cases rule: main_iter_cases)
      case skipped
      from main_console_frame [OF this] ne show ?thesis by simp
    next
      case (full s1 a1 s2 a2 a3)
      note cf = main_console_frame [OF full(1)]
      note t = main_trigger_actions [OF full(2)]
      from cf st t have s2: "s2 = s1" "a2 = []" by simp_all
      with cf st have "current_state s2 = STATE_MEASUREMENT_COMPLETE"
        "echo_start_time s2 = echo_start_time sc" "echo_end_time s2 = echo_end_time sc"
        by simp_all
      with main_report_cases [OF full(3)] cf s2 show ?thesis
        by (auto simp: full(4))
    qed
  qed
  have d: "t_subida (fst (begin_measurement new_alarm st)) = t_subida st
         \<and> t_descida (fst (begin_measurement new_alarm st)) = t_descida st"
    by (simp add: begin_measurement_def)
  from a b c d show ?thesis by blast
qed

theorem timestamps_latest_edges_witness:
  "run [Irq (Echo_irq 27 4 0 1030000), Irq (Echo_irq 27 4 0 1030500)]
       (g_state_init\<lparr>system_running := True, echo_start_time := 100, echo_end_time := 700,
          current_state := STATE_WAITING_FOR_ECHO, measurement_alarm_id := 1\<rparr>)
     = Inr (g_state_init\<lparr>system_running := True, echo_start_time := 100,
              echo_end_time := 1030500, current_state := STATE_MEASUREMENT_COMPLETE,
              measurement_alarm_id := 1\<rparr>,
            [Cancel_alarm 1])
   \<and> rises [Irq (Echo_irq 27 4 0 1030000), Irq (Echo_irq 27 4 0 1030500)] = []
   \<and> falls [Irq (Echo_irq 27 4 0 1030000), Irq (Echo_irq 27 4 0 1030500)] = [1030000, 1030500]
   \<and> main_iter no_char
        (g_state_init\<lparr>system_running := True, echo_start_time := 100,
           echo_end_time := 1030500, current_state := STATE_MEASUREMENT_COMPLETE,
           measurement_alarm_id := 1\<rparr>)
     = Inr (g_state_init\<lparr>system_running := True, echo_start_time := 100,
              echo_end_time := 1030500, measurement_alarm_id := 1\<rparr>,
            [Printf (Msg_distance ''10:00:00'' (1130967 / 64)), Sleep_ms 1000, Sleep_ms 10])
   \<and> irq_step (Echo_irq 27 4 0 1030000)
        (g_state_init\<lparr>system_running := True, echo_start_time := 100, echo_end_time := 700,
           current_state := STATE_WAITING_FOR_ECHO, measurement_alarm_id := 1\<rparr>)
     = g_state_init\<lparr>system_running := True, echo_start_time := 100, echo_end_time := 1030000,
         current_state := STATE_MEASUREMENT_COMPLETE, measurement_alarm_id := 1\<rparr>"
proof -
  have i: "irq_step (Echo_irq 27 4 0 1030000)
        (g_state_init\<lparr>system_running := True, echo_start_time := 100, echo_end_time := 700,
           current_state := STATE_WAITING_FOR_ECHO, measurement_alarm_id := 1\<rparr>)
     = g_state_init\<lparr>system_running := True, echo_start_time := 100, echo_end_time := 1030000,
         current_state := STATE_MEASUREMENT_COMPLETE, measurement_alarm_id := 1\<rparr>"
    by (simp add: irq_defs g_state_init_def)
  have a: "run [Irq (Echo_irq 27 4 0 1030000), Irq (Echo_irq 27 4 0 1030500)]
       (g_state_init\<lparr>system_running := True, echo_start_time := 100, echo_end_time := 700,
          current_state := STATE_WAITING_FOR_ECHO, measurement_alarm_id := 1\<rparr>)
     = Inr (g_state_init\<lparr>system_running := True, echo_start_time := 100,
              echo_end_time := 1030500, current_state := STATE_MEASUREMENT_COMPLETE,
              measurement_alarm_id := 1\<rparr>,
            [Cancel_alarm 1])"
    by (simp add: irq_defs g_state_init_def)
  have r: "rises [Irq (Echo_irq 27 4 0 1030000), Irq (Echo_irq 27 4 0 1030500)] = []"
    by (simp add: rises_def List.map_filter_def ECHO_PIN_def GPIO_IRQ_EDGE_RISE_def)
  have f: "falls [Irq (Echo_irq 27 4 0 1030000), Irq (Echo_irq 27 4 0 1030500)]
             = [1030000, 1030500]"
    by (simp add: falls_def List.map_filter_def ECHO_PIN_def GPIO_IRQ_EDGE_FALL_def)
  have m: "main_iter no_char
        (g_state_init\<lparr>system_running := True, echo_start_time := 100,
           echo_end_time := 1030500, current_state := STATE_MEASUREMENT_COMPLETE,
           measurement_alarm_id := 1\<rparr>)
     = Inr (g_state_init\<lparr>system_running := True, echo_start_time := 100,
              echo_end_time := 1030500, measurement_alarm_id := 1\<rparr>,
            [Printf (Msg_distance ''10:00:00'' (1130967 / 64)), Sleep_ms 1000, Sleep_ms 10])"
    by (simp add: iter_defs g_state_init_def sprintf_time_init d1030400 distance_cm_1030400)
  from timestamps_latest_edges
    [where es = "[Irq (Echo_irq 27 4 0 1030000), Irq (Echo_irq 27 4 0 1030500)]"
       and s = "g_state_init\<lparr>system_running := True, echo_start_time := 100,
          echo_end_time := 700, current_state := STATE_WAITING_FOR_ECHO,
          measurement_alarm_id := 1\<rparr>"] a r f m i
  show ?thesis by - (intro conjI; assumption)
qed

text \<open>
  C9. Handling the command \<^verbatim>\<open>stop\<close> while a measurement waits for its echo changes the
  run flag and the command buffer (its contents and index) and nothing else. The measurement
  then ends as it would have: a falling edge completes it, the timeout fails it, and the
  next iteration that does not end in \<^verbatim>\<open>continue\<close> prints exactly one report, returns to
  \<^verbatim>\<open>STATE_IDLE\<close> and, the run flag being clear, sends no pulse.
\<close>

theorem stop_keeps_measurement:
  assumes "buffer_ok s" and "current_state s = STATE_WAITING_FOR_ECHO"
    and "0 < cmd_index s"
    and "c_str ((cmd_buffer s)[nat (cmd_index s) := CHR 0x00]) = ''stop''"
    and "getchar_result inp = Some c" and "c = CHR 0x0D \<or> c = CHR 0x0A"
    and "is_falling_edge e \<or> is_timeout e"
    and "getchar_result inp2 \<noteq> Some (CHR 0x0D)" and "getchar_result inp2 \<noteq> Some (CHR 0x0A)"
  shows "\<exists>s1 s2 acts2.
           s1 = s\<lparr>system_running := False, cmd_index := 0,
                   cmd_buffer := replicate (nat CMD_BUFFER_SIZE) (CHR 0x00)\<rparr>
         \<and> main_iter inp s = Inr (s1, [Putchar c, Printf Msg_stopped, Sleep_ms 10])
         \<and> (current_state (irq_step e s1) = STATE_MEASUREMENT_COMPLETE
              \<or> current_state (irq_step e s1) = STATE_MEASUREMENT_ERROR)
         \<and> main_iter inp2 (irq_step e s1) = Inr (s2, acts2)
         \<and> length (reports acts2) = 1
         \<and> current_state s2 = STATE_IDLE
         \<and> \<not> system_running s2
         \<and> filter is_trigger_or_alarm acts2 = []"
proof -
  define s1 where "s1 = s\<lparr>system_running := False, cmd_index := 0,
                   cmd_buffer := replicate (nat CMD_BUFFER_SIZE) (CHR 0x00)\<rparr>"
  from assms(1) have len: "length (cmd_buffer s) = nat CMD_BUFFER_SIZE"
    and idx: "0 \<le> cmd_index s" "cmd_index s \<le> CMD_BUFFER_SIZE - 1"
    by (simp_all add: buffer_ok_def)
  have inb: "cmd_index s < int (length (cmd_buffer s))"
    using len idx by (simp add: CMD_BUFFER_SIZE_def)
  have w: "buf_write (cmd_buffer s) (cmd_index s) (CHR 0x00)
             = Inr ((cmd_buffer s)[nat (cmd_index s) := CHR 0x00])"
    using idx(1) inb by (rule buf_write_ok)
  have hc: "handle_char c s = Inr (False, s1, [Putchar c, Printf Msg_stopped])"
    using assms(3,4,6) unfolding handle_char_def w s1_def by (simp add: Let_def)
  have st1: "current_state s1 = STATE_WAITING_FOR_ECHO" "\<not> system_running s1"
    using assms(2) by (simp_all add: s1_def)
  have it1: "main_iter inp s = Inr (s1, [Putchar c, Printf Msg_stopped, Sleep_ms 10])"
    using st1 by (simp add: main_iter_def main_console_def assms(5) hc main_trigger_def
        main_report_def)
  have ok1: "buffer_ok s1"
    by (simp add: s1_def buffer_ok_def CMD_BUFFER_SIZE_def)
  define s1' where "s1' = irq_step e s1"
  note tm = irq_terminal [OF st1(1) assms(7), folded s1'_def]
  have terminal: "current_state s1' = STATE_MEASUREMENT_COMPLETE
              \<or> current_state s1' = STATE_MEASUREMENT_ERROR"
    using tm assms(7) by blast
  have ok1': "buffer_ok s1'" using ok1 tm by (simp add: buffer_ok_def)
  have run1': "\<not> system_running s1'" using tm st1(2) by simp
  from main_iter_total [OF ok1', of inp2] obtain s2 acts2
    where it2: "main_iter inp2 s1' = Inr (s2, acts2)" by blast
  from it2 have "length (reports acts2) = 1 \<and> current_state s2 = STATE_IDLE
         \<and> \<not> system_running s2 \<and> filter is_trigger_or_alarm acts2 = []"
  proof (cases rule: main_iter_cases)
    case skipped
    from main_console_not_line_end [OF skipped assms(8,9)] show ?thesis by simp
  next
    case (full t1 a1 t2 a2 a3)
    note c = main_console_frame [OF full(1)]
    note n = main_console_not_line_end [OF full(1) assms(8,9)]
    note t = main_trigger_actions [OF full(2)]
    note r = main_report_cases [OF full(3)]
    note ra = main_report_actions [OF full(3)]
    from n run1' t have t2: "t2 = t1" "a2 = []" by simp_all
    with c terminal have "current_state t2 = STATE_MEASUREMENT_COMPLETE
              \<or> current_state t2 = STATE_MEASUREMENT_ERROR" by simp
    with r have "length (reports a3) = 1" "current_state s2 = STATE_IDLE" by auto
    with c t2 ra n run1' show ?thesis by (simp add: full(4) is_trigger_or_alarm_def)
  qed
  with it1 terminal it2 show ?thesis unfolding s1'_def s1_def by blast
qed

theorem stop_keeps_measurement_witness:
  "buffer_ok s_stop
   \<and> c_str ((cmd_buffer s_stop)[nat (cmd_index s_stop) := CHR 0x00]) = ''stop''
   \<and> main_iter (got_char CHR 0x0A) s_stop
     = Inr (g_state_init\<lparr>current_state := STATE_WAITING_FOR_ECHO, measurement_alarm_id := 1\<rparr>,
            [Putchar CHR 0x0A, Printf Msg_stopped, Sleep_ms 10])
   \<and> main_iter no_char
        (irq_step (Alarm_irq 1)
           (g_state_init\<lparr>current_state := STATE_WAITING_FOR_ECHO, measurement_alarm_id := 1\<rparr>))
     = Inr (g_state_init\<lparr>measurement_alarm_id := 1\<rparr>,
            [Printf (Msg_failure ''10:00:00''), Sleep_ms 10])"
proof -
  have h1: "buffer_ok s_stop" by code_simp
  have h2: "current_state s_stop = STATE_WAITING_FOR_ECHO" by (simp add: s_stop_def)
  have h3: "0 < cmd_index s_stop" by (simp add: s_stop_def)
  have h4: "c_str ((cmd_buffer s_stop)[nat (cmd_index s_stop) := CHR 0x00]) = ''stop''"
    by code_simp
  have h5: "getchar_result (got_char CHR 0x0A) = Some CHR 0x0A" by (simp add: got_char_def)
  have h6: "CHR 0x0A = CHR 0x0D \<or> CHR 0x0A = CHR 0x0A" by simp
  have h7: "is_falling_edge (Alarm_irq 1) \<or> is_timeout (Alarm_irq 1)"
    by (simp add: is_timeout_def)
  have h8: "getchar_result no_char \<noteq> Some CHR 0x0D" "getchar_result no_char \<noteq> Some CHR 0x0A"
    by (simp_all add: no_char_def)
  have eq: "s_stop\<lparr>system_running := False, cmd_index := 0,
                   cmd_buffer := replicate (nat CMD_BUFFER_SIZE) (CHR 0x00)\<rparr>
            = g_state_init\<lparr>current_state := STATE_WAITING_FOR_ECHO, measurement_alarm_id := 1\<rparr>"
    by (simp add: s_stop_def g_state_init_def)
  from stop_keeps_measurement [OF h1 h2 h3 h4 h5 h6 h7 h8]
  have it1: "main_iter (got_char CHR 0x0A) s_stop
     = Inr (g_state_init\<lparr>current_state := STATE_WAITING_FOR_ECHO, measurement_alarm_id := 1\<rparr>,
            [Putchar CHR 0x0A, Printf Msg_stopped, Sleep_ms 10])"
    unfolding eq by blast
  have it2: "main_iter no_char
        (irq_step (Alarm_irq 1)
           (g_state_init\<lparr>current_state := STATE_WAITING_FOR_ECHO, measurement_alarm_id := 1\<rparr>))
     = Inr (g_state_init\<lparr>measurement_alarm_id := 1\<rparr>,
            [Printf (Msg_failure ''10:00:00''), Sleep_ms 10])"
    by (simp add: main_iter_def main_console_def main_trigger_def main_report_def no_char_def
        sprintf_time_init g_state_init_def timeout_callback_def)
  from h1 h4 it1 it2 show ?thesis by (intro conjI)
qed

section \<open>Safety of the command buffer\<close>

text \<open>
  C10. From a well-formed command buffer (64 bytes, index between 0 and 63), every sequence
  of foreground iterations and interrupts, whatever characters arrive, runs without a write
  outside the buffer and ends with the index between 0 and 63 again. At index 63 a
  character other than a line end is echoed and dropped; a line end at index 0 is echoed
  and the iteration continues without handling a command; a line end at a positive index
  writes the terminator inside the buffer and resets the index.
\<close>

theorem command_buffer_in_bounds:
  assumes "buffer_ok s"
  shows "(\<exists>s' acts. run es s = Inr (s', acts) \<and> buffer_ok s')
       \<and> (cmd_index s = CMD_BUFFER_SIZE - 1 \<and> c \<noteq> CHR 0x0D \<and> c \<noteq> CHR 0x0A \<longrightarrow>
            handle_char c s = Inr (False, s, [Putchar c]))
       \<and> (cmd_index s = 0 \<and> (c = CHR 0x0D \<or> c = CHR 0x0A) \<longrightarrow>
            handle_char c s = Inr (True, s, [Putchar c]))
       \<and> (0 < cmd_index s \<and> (c = CHR 0x0D \<or> c = CHR 0x0A) \<longrightarrow>
            (\<exists>buf s1 a1. buf_write (cmd_buffer s) (cmd_index s) (CHR 0x00) = Inr buf
               \<and> buf ! nat (cmd_index s) = CHR 0x00
               \<and> handle_char c s = Inr (False, s1, a1) \<and> cmd_index s1 = 0))"
proof -
  from assms have len: "length (cmd_buffer s) = nat CMD_BUFFER_SIZE"
    and idx: "0 \<le> cmd_index s" "cmd_index s \<le> CMD_BUFFER_SIZE - 1"
    by (simp_all add: buffer_ok_def)
  have inb: "cmd_index s < int (length (cmd_buffer s))"
    using len idx by (simp add: CMD_BUFFER_SIZE_def)
  have w: "buf_write (cmd_buffer s) (cmd_index s) (CHR 0x00)
             = Inr ((cmd_buffer s)[nat (cmd_index s) := CHR 0x00])"
    using idx(1) inb by (rule buf_write_ok)
  have nth: "(cmd_buffer s)[nat (cmd_index s) := CHR 0x00] ! nat (cmd_index s) = CHR 0x00"
    using idx(1) inb by simp
  show ?thesis
    using run_total [OF assms, of es] w nth
    by (auto simp: handle_char_def Let_def CMD_BUFFER_SIZE_def)
qed

theorem command_buffer_in_bounds_witness:
  "buffer_ok g_state_init
   \<and> run [Iter (got_char CHR ''s''), Iter (got_char CHR 0x0A)] g_state_init
       = Inr (g_state_init,
              [Putchar CHR ''s'', Sleep_ms 10, Putchar CHR 0x0A, Printf (Msg_unknown ''s''),
               Sleep_ms 10])
   \<and> handle_char CHR 0x0A g_state_init = Inr (True, g_state_init, [Putchar CHR 0x0A])
   \<and> buffer_ok (g_state_init\<lparr>cmd_index := 63\<rparr>)
   \<and> handle_char CHR ''x'' (g_state_init\<lparr>cmd_index := 63\<rparr>)
       = Inr (False, g_state_init\<lparr>cmd_index := 63\<rparr>, [Putchar CHR ''x''])"
proof -
  have ok: "buffer_ok g_state_init" by (rule buffer_ok_init)
  have ok63: "buffer_ok (g_state_init\<lparr>cmd_index := 63\<rparr>)"
    by (simp add: buffer_ok_def g_state_init_def CMD_BUFFER_SIZE_def)
  have r: "run [Iter (got_char CHR ''s''), Iter (got_char CHR 0x0A)] g_state_init
       = Inr (g_state_init,
              [Putchar CHR ''s'', Sleep_ms 10, Putchar CHR 0x0A, Printf (Msg_unknown ''s''),
               Sleep_ms 10])"
    by code_simp
  have i0: "cmd_index g_state_init = 0 \<and> (CHR 0x0A = CHR 0x0D \<or> CHR 0x0A = CHR 0x0A)"
    by (simp add: g_state_init_def)
  have i63: "cmd_index (g_state_init\<lparr>cmd_index := 63\<rparr>) = CMD_BUFFER_SIZE - 1
             \<and> CHR ''x'' \<noteq> CHR 0x0D \<and> CHR ''x'' \<noteq> CHR 0x0A"
    by (simp add: CMD_BUFFER_SIZE_def)
  from command_buffer_in_bounds [OF ok, of _ "CHR 0x0A"] i0
  have e: "handle_char CHR 0x0A g_state_init = Inr (True, g_state_init, [Putchar CHR 0x0A])"
    by blast
  from command_buffer_in_bounds [OF ok63, of _ "CHR ''x''"] i63
  have f: "handle_char CHR ''x'' (g_state_init\<lparr>cmd_index := 63\<rparr>)
       = Inr (False, g_state_init\<lparr>cmd_index := 63\<rparr>, [Putchar CHR ''x''])"
    by blast
  from ok r e ok63 f show ?thesis by (intro conjI)
qed

end
